theory Spec2Isabelle
  imports Complex_Main
begin

section \<open>JavaScript values used by the program\<close>

text \<open>
  Strings are lists of 8-bit code units (\<^typ>\<open>string\<close>); the program's version strings,
  schedule times and configuration values are ASCII in practice.

  A JavaScript number is an IEEE-754 binary64 value.  \<open>Fin q\<close> is the finite double whose
  exact value is the rational \<open>q\<close>; the two zeros are not told apart (no operation of the
  program distinguishes them).
\<close>

datatype jsnum = NaN | NegInfinity | Fin rat | PosInfinity

function bit_length :: "int \<Rightarrow> int" where
  "bit_length n = (if n \<le> 0 then 0 else 1 + bit_length (n div 2))"
  by pat_completeness auto
termination
  by (relation "measure nat") auto

declare bit_length.simps [simp del]

definition pow2 :: "int \<Rightarrow> rat" where
  "pow2 k = (if 0 \<le> k then 2 ^ nat k else 1 / 2 ^ nat (- k))"

definition floor_log2 :: "rat \<Rightarrow> int" where
  \<comment> \<open>for \<open>q > 0\<close>: the \<open>e\<close> with \<open>2^e \<le> q < 2^(e+1)\<close>\<close>
  "floor_log2 q =
     (let (a, b) = quotient_of q;
          k = bit_length a - bit_length b
      in if pow2 k \<le> q then k else k - 1)"

definition round_half_even :: "rat \<Rightarrow> int" where
  "round_half_even q =
     (let f = \<lfloor>q\<rfloor>; d = q - of_int f
      in if d < 1 / 2 then f else if 1 / 2 < d then f + 1
         else if even f then f else f + 1)"

definition round_double :: "rat \<Rightarrow> jsnum" where
  \<comment> \<open>roundTiesToEven of an exact value to binary64: 53 significant bits, least exponent
      \<open>-1074\<close>, overflow to infinity from \<open>2^1024\<close>\<close>
  "round_double q =
     (if q = 0 then Fin 0
      else let x = \<bar>q\<bar>;
               p = max (floor_log2 x - 52) (- 1074);
               v = of_int (round_half_even (x / pow2 p)) * pow2 p
           in if pow2 1024 \<le> v then (if q < 0 then NegInfinity else PosInfinity)
              else Fin (if q < 0 then - v else v))"

fun js_lt :: "jsnum \<Rightarrow> jsnum \<Rightarrow> bool" where
  "js_lt (Fin a) (Fin b) = (a < b)"
| "js_lt NegInfinity (Fin b) = True"
| "js_lt NegInfinity PosInfinity = True"
| "js_lt (Fin a) PosInfinity = True"
| "js_lt a b = False"

definition js_gt :: "jsnum \<Rightarrow> jsnum \<Rightarrow> bool" where
  "js_gt a b = js_lt b a"

definition js_le :: "jsnum \<Rightarrow> jsnum \<Rightarrow> bool" where
  \<comment> \<open>\<open>a <= b\<close>: false when either side is NaN, otherwise not \<open>b < a\<close>\<close>
  "js_le a b = (a \<noteq> NaN \<and> b \<noteq> NaN \<and> \<not> js_lt b a)"

definition js_neg :: "jsnum \<Rightarrow> jsnum" where
  "js_neg a = (case a of NaN \<Rightarrow> NaN | NegInfinity \<Rightarrow> PosInfinity
               | PosInfinity \<Rightarrow> NegInfinity | Fin q \<Rightarrow> Fin (- q))"

fun js_add :: "jsnum \<Rightarrow> jsnum \<Rightarrow> jsnum" where
  "js_add (Fin a) (Fin b) = round_double (a + b)"
| "js_add NaN b = NaN"
| "js_add a NaN = NaN"
| "js_add PosInfinity NegInfinity = NaN"
| "js_add NegInfinity PosInfinity = NaN"
| "js_add PosInfinity b = PosInfinity"
| "js_add NegInfinity b = NegInfinity"
| "js_add a PosInfinity = PosInfinity"
| "js_add a NegInfinity = NegInfinity"

definition js_sub :: "jsnum \<Rightarrow> jsnum \<Rightarrow> jsnum" where
  "js_sub a b = js_add a (js_neg b)"

definition js_sign :: "jsnum \<Rightarrow> int" where
  "js_sign a = (case a of NaN \<Rightarrow> 0 | NegInfinity \<Rightarrow> - 1 | PosInfinity \<Rightarrow> 1
                | Fin q \<Rightarrow> (if q < 0 then - 1 else if q = 0 then 0 else 1))"

fun js_mul :: "jsnum \<Rightarrow> jsnum \<Rightarrow> jsnum" where
  "js_mul (Fin a) (Fin b) = round_double (a * b)"
| "js_mul NaN b = NaN"
| "js_mul a NaN = NaN"
| "js_mul a b =
     (let s = js_sign a * js_sign b
      in if s = 0 then NaN else if s < 0 then NegInfinity else PosInfinity)"

definition or0 :: "jsnum \<Rightarrow> jsnum" where
  \<comment> \<open>\<open>x || 0\<close> on a number: NaN and zero are falsy\<close>
  "or0 x = (if x = NaN \<or> x = Fin 0 then Fin 0 else x)"

subsection \<open>Strings\<close>

definition is_ws :: "char \<Rightarrow> bool" where
  \<comment> \<open>WhiteSpace and LineTerminator code units below 256: TAB, LF, VT, FF, CR, SP, NBSP\<close>
  "is_ws c = (c \<in> set [CHR 0x09, CHR 0x0A, CHR 0x0B, CHR 0x0C, CHR 0x0D, CHR 0x20, CHR 0xA0])"

definition trim :: "string \<Rightarrow> string" where
  "trim s = rev (dropWhile is_ws (rev (dropWhile is_ws s)))"

fun split_str :: "char \<Rightarrow> string \<Rightarrow> string list" where
  \<comment> \<open>\<open>s.split(c)\<close> for a one-character separator; never the empty list\<close>
  "split_str c [] = [[]]"
| "split_str c (x # xs) =
     (if x = c then [] # split_str c xs
      else (case split_str c xs of [] \<Rightarrow> [[x]] | p # ps \<Rightarrow> (x # p) # ps))"

fun startsWith :: "string \<Rightarrow> string \<Rightarrow> bool" where
  "startsWith s [] = True"
| "startsWith [] (p # ps) = False"
| "startsWith (x # xs) (p # ps) = (x = p \<and> startsWith xs ps)"

definition endsWith :: "string \<Rightarrow> string \<Rightarrow> bool" where
  "endsWith s p = startsWith (rev s) (rev p)"

fun str_includes :: "string \<Rightarrow> string \<Rightarrow> bool" where
  \<comment> \<open>\<open>s.includes(p)\<close>\<close>
  "str_includes [] p = (p = [])"
| "str_includes (x # xs) p = (startsWith (x # xs) p \<or> str_includes xs p)"

subsection \<open>\<open>Number(string)\<close>\<close>

text \<open>
  The conversion of a string to a number, by the grammar of numeric string literals.  The
  value of a decimal literal is its exact value rounded to the nearest double; the language
  definition lets an implementation approximate literals of more than 20 significant
  digits, which is not modelled.
\<close>

definition is_digit :: "char \<Rightarrow> bool" where
  "is_digit c = (c \<in> set ''0123456789'')"

definition hex_val :: "char \<Rightarrow> nat option" where
  "hex_val c =
     map_of [(CHR ''0'', 0), (CHR ''1'', 1), (CHR ''2'', 2), (CHR ''3'', 3), (CHR ''4'', 4),
             (CHR ''5'', 5), (CHR ''6'', 6), (CHR ''7'', 7), (CHR ''8'', 8), (CHR ''9'', 9),
             (CHR ''a'', 10), (CHR ''b'', 11), (CHR ''c'', 12), (CHR ''d'', 13), (CHR ''e'', 14),
             (CHR ''f'', 15), (CHR ''A'', 10), (CHR ''B'', 11), (CHR ''C'', 12), (CHR ''D'', 13),
             (CHR ''E'', 14), (CHR ''F'', 15)] c"

definition digits_in :: "nat \<Rightarrow> string \<Rightarrow> bool" where
  \<comment> \<open>a non-empty run of digits of the given base\<close>
  "digits_in base s =
     (s \<noteq> [] \<and> list_all (\<lambda>c. case hex_val c of None \<Rightarrow> False | Some d \<Rightarrow> d < base) s)"

definition digits_val :: "nat \<Rightarrow> string \<Rightarrow> int" where
  "digits_val base s =
     foldl (\<lambda>acc c. acc * int base + (case hex_val c of None \<Rightarrow> 0 | Some d \<Rightarrow> int d)) 0 s"

definition pow10 :: "int \<Rightarrow> rat" where
  "pow10 k = (if 0 \<le> k then 10 ^ nat k else 1 / 10 ^ nat (- k))"

definition parse_exponent :: "string \<Rightarrow> int option" where
  \<comment> \<open>ExponentPart, or nothing\<close>
  "parse_exponent s =
     (case s of
        [] \<Rightarrow> Some 0
      | c # r \<Rightarrow>
          if c = CHR ''e'' \<or> c = CHR ''E'' then
            (case r of
               [] \<Rightarrow> None
             | d # ds \<Rightarrow>
                 if d = CHR ''+'' then (if digits_in 10 ds then Some (digits_val 10 ds) else None)
                 else if d = CHR ''-'' then (if digits_in 10 ds then Some (- digits_val 10 ds) else None)
                 else (if digits_in 10 r then Some (digits_val 10 r) else None))
          else None)"

definition parse_unsigned_decimal :: "string \<Rightarrow> jsnum" where
  \<comment> \<open>StrUnsignedDecimalLiteral: \<open>Infinity\<close>, or digits with an optional fraction and exponent\<close>
  "parse_unsigned_decimal s =
     (if s = ''Infinity'' then PosInfinity
      else let ip = takeWhile is_digit s; r1 = dropWhile is_digit s;
               dot = (r1 \<noteq> [] \<and> hd r1 = CHR ''.'');
               fp = (if dot then takeWhile is_digit (tl r1) else []);
               r2 = (if dot then dropWhile is_digit (tl r1) else r1)
           in if ip = [] \<and> fp = [] then NaN
              else (case parse_exponent r2 of
                      None \<Rightarrow> NaN
                    | Some e \<Rightarrow>
                        round_double (of_int (digits_val 10 (ip @ fp)) * pow10 (e - int (length fp)))))"

definition parse_non_decimal :: "string \<Rightarrow> jsnum option" where
  \<comment> \<open>NonDecimalIntegerLiteral: \<open>0x\<close>, \<open>0o\<close>, \<open>0b\<close> (either case), unsigned\<close>
  "parse_non_decimal s =
     (case s of
        z # k # ds \<Rightarrow>
          if z \<noteq> CHR ''0'' then None
          else if k = CHR ''x'' \<or> k = CHR ''X'' then
            (if digits_in 16 ds then Some (round_double (of_int (digits_val 16 ds))) else None)
          else if k = CHR ''o'' \<or> k = CHR ''O'' then
            (if digits_in 8 ds then Some (round_double (of_int (digits_val 8 ds))) else None)
          else if k = CHR ''b'' \<or> k = CHR ''B'' then
            (if digits_in 2 ds then Some (round_double (of_int (digits_val 2 ds))) else None)
          else None
      | _ \<Rightarrow> None)"

definition Number :: "string \<Rightarrow> jsnum" where
  \<comment> \<open>StringToNumber: surrounding white space is dropped, the empty string is 0, anything
      that is not a StrNumericLiteral is NaN\<close>
  "Number str =
     (let s = trim str
      in if s = [] then Fin 0
         else (case parse_non_decimal s of
                 Some v \<Rightarrow> v
               | None \<Rightarrow>
                   if hd s = CHR ''+'' then parse_unsigned_decimal (tl s)
                   else if hd s = CHR ''-'' then js_neg (parse_unsigned_decimal (tl s))
                   else parse_unsigned_decimal s))"

section \<open>Update service (src/services/updateService.ts)\<close>

definition part_or0 :: "jsnum list \<Rightarrow> nat \<Rightarrow> jsnum" where
  \<comment> \<open>\<open>parts[i] || 0\<close>: an index past the end reads \<open>undefined\<close>, which is falsy\<close>
  "part_or0 parts i = (if i < length parts then or0 (parts ! i) else Fin 0)"

function isNewerVersion_loop :: "jsnum list \<Rightarrow> jsnum list \<Rightarrow> nat \<Rightarrow> bool" where
  "isNewerVersion_loop newParts currentParts i =
     (if i < max (length newParts) (length currentParts) then
        (let newPart = part_or0 newParts i; currentPart = part_or0 currentParts i
         in if js_gt newPart currentPart then True
            else if js_lt newPart currentPart then False
            else isNewerVersion_loop newParts currentParts (Suc i))
      else False)"
  by pat_completeness auto
termination
  by (relation "measure (\<lambda>(n, c, i). max (length n) (length c) - i)") auto

declare isNewerVersion_loop.simps [simp del]

definition isNewerVersion :: "string \<Rightarrow> string \<Rightarrow> bool" where
  "isNewerVersion newVersion currentVersion =
     (let newParts = map Number (split_str CHR ''.'' newVersion);
          currentParts = map Number (split_str CHR ''.'' currentVersion)
      in isNewerVersion_loop newParts currentParts 0)"


subsection \<open>Version comparison as the specification words it\<close>

text \<open>
  The specification's reading of the comparison, kept apart from the loop above: every
  component is read as a number, a missing trailing component counts as 0, and the first
  position at which the two versions differ decides.
\<close>

definition components :: "string \<Rightarrow> jsnum list" where
  "components v = map (\<lambda>p. or0 (Number p)) (split_str CHR ''.'' v)"

definition pad_to :: "nat \<Rightarrow> jsnum list \<Rightarrow> jsnum list" where
  "pad_to k xs = xs @ replicate (k - length xs) (Fin 0)"

fun first_difference :: "jsnum list \<Rightarrow> jsnum list \<Rightarrow> (jsnum \<times> jsnum) option" where
  "first_difference (a # as) (b # bs) = (if a = b then first_difference as bs else Some (a, b))"
| "first_difference as bs = None"

definition newer_by_components :: "string \<Rightarrow> string \<Rightarrow> bool" where
  "newer_by_components newVersion currentVersion =
     (let ns = components newVersion; cs = components currentVersion;
          k = max (length ns) (length cs)
      in case first_difference (pad_to k ns) (pad_to k cs) of
           None \<Rightarrow> False
         | Some (a, b) \<Rightarrow> js_gt a b)"

fun join_str :: "char \<Rightarrow> string list \<Rightarrow> string" where
  \<comment> \<open>\<open>parts.join(c)\<close>\<close>
  "join_str c [] = []"
| "join_str c [p] = p"
| "join_str c (p # q # ps) = p @ c # join_str c (q # ps)"

definition replace_component :: "nat \<Rightarrow> string \<Rightarrow> string \<Rightarrow> string" where
  \<comment> \<open>the version string with its \<open>i\<close>-th dot-separated component replaced\<close>
  "replace_component i p v = join_str CHR ''.'' ((split_str CHR ''.'' v)[i := p])"

subsection \<open>Checking the release feed\<close>

text \<open>
  The request to the release feed is the input of the model, as what \<open>axios.get\<close>
  produced.  Calls of the logger are left out: they do not throw.
\<close>

record UpdateInfo =
  version :: string
  available :: bool
  downloadUrl :: string
  releaseNotes :: "string option"
  publishedAt :: "string option"

text \<open>
  The JSON body of the release feed.  Every field may be missing; reading a property of a
  missing value throws a TypeError, as it does in the source.
\<close>

record asset =
  name :: "string option"
  browser_download_url :: "string option"

record release =
  tag_name :: "string option"
  assets :: "asset list option"
  body :: "string option"
  published_at :: "string option"

datatype js_error =
    TypeError
  | RangeError
  | AxiosError "nat option"  \<comment> \<open>an axios failure, with the HTTP status when there was a response\<close>
  | OtherError string

datatype request_outcome =
    Responded "release option"  \<comment> \<open>\<open>response.data\<close>; \<open>None\<close> is a body that is not an object\<close>
  | Failed js_error             \<comment> \<open>\<open>axios.get\<close> rejected\<close>

fun find_windows_asset :: "asset list \<Rightarrow> js_error + asset option" where
  \<comment> \<open>\<open>assets.find(asset => asset.name.includes('windows') && asset.name.endsWith('.zip'))\<close>\<close>
  "find_windows_asset [] = Inr None"
| "find_windows_asset (a # as) =
     (case name a of
        None \<Rightarrow> Inl TypeError
      | Some n \<Rightarrow>
          if str_includes n ''windows'' \<and> endsWith n ''.zip'' then Inr (Some a)
          else find_windows_asset as)"

definition strip_v :: "string \<Rightarrow> string" where
  \<comment> \<open>\<open>tag.replace(/^v/, '')\<close>\<close>
  "strip_v tag = (case tag of c # r \<Rightarrow> if c = CHR ''v'' then r else tag | [] \<Rightarrow> [])"

definition str_or :: "string option \<Rightarrow> string \<Rightarrow> string" where
  \<comment> \<open>\<open>x || d\<close> on an optional string: \<open>undefined\<close> and the empty string are falsy\<close>
  "str_or x d = (case x of None \<Rightarrow> d | Some v \<Rightarrow> if v = [] then d else v)"

definition checkForUpdates_try :: "string \<Rightarrow> request_outcome \<Rightarrow> js_error + UpdateInfo" where
  \<comment> \<open>the body of the \<open>try\<close> block\<close>
  "checkForUpdates_try currentVersion outcome =
     (case outcome of
        Failed e \<Rightarrow> Inl e
      | Responded None \<Rightarrow> Inl TypeError
      | Responded (Some latestRelease) \<Rightarrow>
          (case tag_name latestRelease of
             None \<Rightarrow> Inl TypeError
           | Some tag \<Rightarrow>
               let latestVersion = strip_v tag;
                   isUpdateAvailable = isNewerVersion latestVersion currentVersion
               in (case (case assets latestRelease of
                           None \<Rightarrow> Inr None
                         | Some as \<Rightarrow> find_windows_asset as) of
                     Inl e \<Rightarrow> Inl e
                   | Inr windowsAsset \<Rightarrow>
                       Inr \<lparr>version = latestVersion,
                            available = isUpdateAvailable,
                            downloadUrl =
                              str_or (case windowsAsset of None \<Rightarrow> None
                                      | Some a \<Rightarrow> browser_download_url a) [],
                            releaseNotes = Some (str_or (body latestRelease) []),
                            publishedAt = published_at latestRelease\<rparr>)))"

definition not_available :: "string \<Rightarrow> UpdateInfo" where
  "not_available currentVersion =
     \<lparr>version = currentVersion, available = False, downloadUrl = [],
      releaseNotes = None, publishedAt = None\<rparr>"

definition checkForUpdates :: "string \<Rightarrow> request_outcome \<Rightarrow> js_error + UpdateInfo" where
  \<comment> \<open>\<open>Inl\<close> would be an exception leaving the method\<close>
  "checkForUpdates currentVersion outcome =
     (case checkForUpdates_try currentVersion outcome of
        Inr info \<Rightarrow> Inr info
      | Inl error \<Rightarrow>
          if error = AxiosError (Some 404) then Inr (not_available currentVersion)
          else Inr (not_available currentVersion))"


section \<open>Configuration (src/config.ts)\<close>

record google_config =
  apiKey :: "string option"
  apiUrl :: string

record app_config =
  imagePrompt :: string
  aspectRatio :: string
  imageSize :: string
  imagesDir :: string
  logLevel :: string

record schedule_config =
  time :: string
  timezone :: string

record Config =
  google :: google_config
  app :: app_config
  schedule :: schedule_config

text \<open>
  \<open>process.env\<close> after dotenv has read the configuration file: a key of the file that the
  process environment did not already define is a key of this map, with the file's value.
\<close>

type_synonym process_env = "string \<rightharpoonup> string"

definition truthy :: "string option \<Rightarrow> bool" where
  "truthy x = (case x of None \<Rightarrow> False | Some v \<Rightarrow> v \<noteq> [])"

definition getEnvVar :: "process_env \<Rightarrow> string \<Rightarrow> string option \<Rightarrow> string option" where
  "getEnvVar env key defaultValue =
     (let value = env key
      in if \<not> truthy value \<and> \<not> truthy defaultValue then None
         else if truthy value then value else defaultValue)"

definition canonical_url :: string where
  "canonical_url =
     ''https://generativelanguage.googleapis.com/v1beta/models/gemini-3-pro-image-preview:generateContent''"

definition correctApiUrl :: "string option \<Rightarrow> string \<Rightarrow> string" where
  \<comment> \<open>the value returned; the rewrite of \<open>process.env\<close> and of the file is best-effort
      and does not change it\<close>
  "correctApiUrl url defaultValue =
     (let correctUrl = canonical_url;
          rawUrl = str_or url defaultValue
      in if str_includes rawUrl ''nano-banana-pro'' \<or> str_includes rawUrl ''api.google.com''
            \<or> str_includes rawUrl ''-exp'' \<or> str_includes rawUrl ''gemini-2.5-flash-image''
            \<or> str_includes rawUrl ''flash-image''
         then correctUrl
         else (if rawUrl = [] then correctUrl else rawUrl))"

definition correctedApiUrl :: "process_env \<Rightarrow> string" where
  \<comment> \<open>the correction run when the module is loaded\<close>
  "correctedApiUrl env =
     (let rawUrl = getEnvVar env ''GOOGLE_API_URL'' None;
          defaultValue = canonical_url
      in if truthy rawUrl \<and>
            (str_includes (the rawUrl) ''nano-banana-pro'' \<or> str_includes (the rawUrl) ''api.google.com''
             \<or> str_includes (the rawUrl) ''-exp'')
         then defaultValue
         else str_or rawUrl defaultValue)"

definition config :: "string \<Rightarrow> process_env \<Rightarrow> Config" where
  \<comment> \<open>the first argument is \<open>path.join(userDataDir, 'images')\<close>, which does not come from
      the environment\<close>
  "config userImagesDir env =
     \<lparr>google = \<lparr>apiKey = getEnvVar env ''GOOGLE_API_KEY'' None,
                 apiUrl = correctedApiUrl env\<rparr>,
      app = \<lparr>imagePrompt =
                str_or (getEnvVar env ''IMAGE_PROMPT''
                          (Some ''A beautiful serene landscape with mountains and a river at sunrise''))
                  ''A beautiful serene landscape with mountains and a river at sunrise'',
              aspectRatio = str_or (getEnvVar env ''ASPECT_RATIO'' (Some ''16:9'')) ''16:9'',
              imageSize = str_or (getEnvVar env ''IMAGE_SIZE'' (Some ''1K'')) ''1K'',
              imagesDir = userImagesDir,
              logLevel = str_or (getEnvVar env ''LOG_LEVEL'' (Some ''info'')) ''info''\<rparr>,
      schedule = \<lparr>time = str_or (getEnvVar env ''SCHEDULE_TIME'' (Some ''09:00'')) ''09:00'',
                   timezone =
                     str_or (getEnvVar env ''TIMEZONE'' (Some ''America/New_York''))
                       ''America/New_York''\<rparr>\<rparr>"

definition default_or_value :: "string \<Rightarrow> string option \<Rightarrow> string" where
  \<comment> \<open>what a key with a documented default loads as: the default when the key is absent or
      empty, its own value otherwise\<close>
  "default_or_value d x = (case x of None \<Rightarrow> d | Some v \<Rightarrow> if v = [] then d else v)"

section \<open>Settings window: saving and loading the configuration file (Electron main process, in src/logger.ts)\<close>

text \<open>
  A JavaScript object with string values, as an association list in insertion order with
  distinct keys (the order of \<open>Object.entries\<close> for keys that are not array indices).
\<close>

type_synonym js_object = "(string \<times> string) list"

fun obj_set :: "string \<Rightarrow> string \<Rightarrow> js_object \<Rightarrow> js_object" where
  \<comment> \<open>\<open>o[k] = v\<close>: an existing key keeps its place, a new key goes last\<close>
  "obj_set k v [] = [(k, v)]"
| "obj_set k v ((k', v') # kvs) = (if k = k' then (k, v) # kvs else (k', v') # obj_set k v kvs)"

definition obj_get :: "js_object \<Rightarrow> string \<Rightarrow> string option" where
  "obj_get obj k = map_of obj k"

definition ui_url_deprecated :: "string \<Rightarrow> bool" where
  \<comment> \<open>the condition of the \<open>load-config\<close> and \<open>save-config\<close> handlers\<close>
  "ui_url_deprecated u =
     (str_includes u ''nano-banana-pro'' \<or> str_includes u ''-exp''
      \<or> str_includes u ''gemini-2.5-flash-image''
      \<or> (str_includes u ''gemini-3-pro'' \<and> \<not> str_includes u ''image''))"

definition save_config_correct :: "js_object \<Rightarrow> js_object" where
  \<comment> \<open>\<open>correctedConfig\<close> of the \<open>save-config\<close> handler\<close>
  "save_config_correct cfg =
     (let c1 = (if truthy (obj_get cfg ''GOOGLE_API_URL'')
                   \<and> ui_url_deprecated (the (obj_get cfg ''GOOGLE_API_URL''))
                then obj_set ''GOOGLE_API_URL'' canonical_url cfg else cfg)
      in if \<not> truthy (obj_get c1 ''GOOGLE_API_URL'')
         then obj_set ''GOOGLE_API_URL'' canonical_url c1 else c1)"

definition escape_quotes :: "string \<Rightarrow> string" where
  \<comment> \<open>\<open>value.replace(/"/g, '\\"')\<close>\<close>
  "escape_quotes v = concat (map (\<lambda>c. if c = CHR 0x22 then [CHR 0x5C, CHR 0x22] else [c]) v)"

definition escapedValue :: "string \<Rightarrow> string" where
  "escapedValue v =
     (if CHR '' '' \<in> set v \<or> CHR ''#'' \<in> set v \<or> CHR ''='' \<in> set v
      then CHR 0x22 # escape_quotes v @ [CHR 0x22]
      else v)"

definition save_config_content :: "js_object \<Rightarrow> string" where
  \<comment> \<open>the text written to the file\<close>
  "save_config_content cfg =
     join_str CHR 0x0A (map (\<lambda>(key, v). key @ CHR ''='' # escapedValue v) (save_config_correct cfg))"

definition is_line_terminator :: "char \<Rightarrow> bool" where
  \<comment> \<open>the code units below 256 that \<open>.\<close> does not match\<close>
  "is_line_terminator c = (c = CHR 0x0A \<or> c = CHR 0x0D)"

definition match_line :: "string \<Rightarrow> (string \<times> string) option" where
  \<comment> \<open>\<open>line.match(/^([^#=]+)=(.*)$/)\<close>: the two groups\<close>
  "match_line line =
     (let k = takeWhile (\<lambda>c. c \<noteq> CHR ''#'' \<and> c \<noteq> CHR ''='') line;
          r = dropWhile (\<lambda>c. c \<noteq> CHR ''#'' \<and> c \<noteq> CHR ''='') line
      in case r of
           [] \<Rightarrow> None
         | c # v \<Rightarrow>
             if k \<noteq> [] \<and> c = CHR ''='' \<and> \<not> list_ex is_line_terminator v then Some (k, v)
             else None)"

definition unquote :: "string \<Rightarrow> string" where
  \<comment> \<open>surrounding quotes removed: \<open>value.slice(1, -1)\<close> when \<open>value\<close> starts and ends with the
      same quote character\<close>
  "unquote v =
     (if (startsWith v [CHR 0x22] \<and> endsWith v [CHR 0x22])
         \<or> (startsWith v [CHR 0x27] \<and> endsWith v [CHR 0x27])
      then butlast (tl v) else v)"

definition loadFreshConfig_parse :: "string \<Rightarrow> js_object" where
  \<comment> \<open>the object built from the content of one file by \<open>loadFreshConfig\<close>\<close>
  "loadFreshConfig_parse content =
     foldl (\<lambda>cfg line.
              case match_line line of
                None \<Rightarrow> cfg
              | Some (k, v) \<Rightarrow>
                  if trim k = ''__proto__'' then cfg  \<comment> \<open>this assignment creates no property\<close>
                  else obj_set (trim k) (unquote (trim v)) cfg)
       [] (split_str CHR 0x0A content)"


section \<open>Scheduler (src/services/scheduler.ts)\<close>

subsection \<open>The \<open>Date\<close> operations the scheduler calls\<close>

text \<open>
  A time value is a number: milliseconds since the epoch, or NaN for an invalid date.  The
  host's time zone is the function \<open>LocalTZA(t, isUTC)\<close> of the language definition, in
  milliseconds; \<open>Date\<close> never consults anything else.
\<close>

type_synonym zone = "rat \<Rightarrow> bool \<Rightarrow> int"

definition fixed_zone :: "int \<Rightarrow> zone" where
  \<comment> \<open>a zone without daylight saving: a constant offset from UTC\<close>
  "fixed_zone offset = (\<lambda>t isUTC. offset)"

definition is_finite :: "jsnum \<Rightarrow> bool" where
  "is_finite x = (case x of Fin q \<Rightarrow> True | _ \<Rightarrow> False)"

definition ToIntegerOrInfinity :: "jsnum \<Rightarrow> jsnum" where
  "ToIntegerOrInfinity x =
     (case x of NaN \<Rightarrow> Fin 0
      | Fin q \<Rightarrow> Fin (of_int (if 0 \<le> q then \<lfloor>q\<rfloor> else \<lceil>q\<rceil>))
      | _ \<Rightarrow> x)"

definition LocalTime :: "zone \<Rightarrow> jsnum \<Rightarrow> jsnum" where
  "LocalTime z t = (case t of Fin q \<Rightarrow> js_add t (Fin (of_int (z q True))) | _ \<Rightarrow> NaN)"

definition UTC :: "zone \<Rightarrow> jsnum \<Rightarrow> jsnum" where
  "UTC z t = (case t of Fin q \<Rightarrow> js_sub t (Fin (of_int (z q False))) | _ \<Rightarrow> NaN)"

definition Day :: "jsnum \<Rightarrow> jsnum" where
  "Day t = (case t of Fin q \<Rightarrow> Fin (of_int \<lfloor>q / 86400000\<rfloor>) | _ \<Rightarrow> NaN)"

definition TimeWithinDay :: "jsnum \<Rightarrow> jsnum" where
  "TimeWithinDay t =
     (case t of Fin q \<Rightarrow> Fin (q - 86400000 * of_int \<lfloor>q / 86400000\<rfloor>) | _ \<Rightarrow> NaN)"

definition MakeTime :: "jsnum \<Rightarrow> jsnum \<Rightarrow> jsnum \<Rightarrow> jsnum \<Rightarrow> jsnum" where
  "MakeTime hour minute sec ms =
     (if \<not> is_finite hour \<or> \<not> is_finite minute \<or> \<not> is_finite sec \<or> \<not> is_finite ms then NaN
      else let h = ToIntegerOrInfinity hour; m = ToIntegerOrInfinity minute;
               s = ToIntegerOrInfinity sec; milli = ToIntegerOrInfinity ms
           in js_add (js_add (js_add (js_mul h (Fin 3600000)) (js_mul m (Fin 60000)))
                        (js_mul s (Fin 1000))) milli)"

definition MakeDate :: "jsnum \<Rightarrow> jsnum \<Rightarrow> jsnum" where
  "MakeDate day t =
     (if \<not> is_finite day \<or> \<not> is_finite t then NaN
      else let tv = js_add (js_mul day (Fin 86400000)) t
           in if is_finite tv then tv else NaN)"

definition TimeClip :: "jsnum \<Rightarrow> jsnum" where
  "TimeClip t =
     (case t of
        Fin q \<Rightarrow> if 8640000000000000 < \<bar>q\<bar> then NaN else ToIntegerOrInfinity t
      | _ \<Rightarrow> NaN)"

definition setHours :: "zone \<Rightarrow> jsnum \<Rightarrow> jsnum \<Rightarrow> jsnum \<Rightarrow> jsnum \<Rightarrow> jsnum \<Rightarrow> jsnum" where
  \<comment> \<open>the new time value of \<open>d\<close> after \<open>d.setHours(hour, min, sec, ms)\<close>\<close>
  "setHours z thisTime hour minute sec ms =
     (if thisTime = NaN then NaN
      else let t = LocalTime z thisTime;
               date = MakeDate (Day t) (MakeTime hour minute sec ms)
           in TimeClip (UTC z date))"

definition setDate_next :: "zone \<Rightarrow> jsnum \<Rightarrow> jsnum" where
  \<comment> \<open>the new time value of \<open>d\<close> after \<open>d.setDate(d.getDate() + 1)\<close>.  \<open>setDate\<close> rebuilds the
      day from year, month and the given day of the month; with the day of the month one
      more than the current one that is the day after \<open>Day(t)\<close>, also across the end of a
      month\<close>
  "setDate_next z thisTime =
     (if thisTime = NaN then NaN
      else let t = LocalTime z thisTime;
               newDate = MakeDate (js_add (Day t) (Fin 1)) (TimeWithinDay t)
           in TimeClip (UTC z newDate))"

subsection \<open>Timers and the scheduler object\<close>

datatype callback =
    FirstRun   \<comment> \<open>the function given to \<open>setTimeout\<close>\<close>
  | DailyRun   \<comment> \<open>the function given to \<open>setInterval\<close>\<close>

record timer =
  handle :: nat
  repeating :: bool
  delay :: jsnum
  action :: callback

text \<open>
  The scheduler object (\<open>intervalId\<close>) together with what it touches of the event loop:
  the armed timers, and how many times \<open>runOnce\<close> has been called.  A timer records the
  delay it was requested with.
\<close>

record sched_state =
  intervalId :: "nat option"
  timers :: "timer list"
  next_handle :: nat
  runs_started :: nat

definition new_Scheduler :: "Config \<Rightarrow> js_error + sched_state" where
  \<comment> \<open>the constructor builds an \<open>ImageGenerator\<close>, which throws without an API key\<close>
  "new_Scheduler cfg =
     (if \<not> truthy (apiKey (google cfg))
      then Inl (OtherError
             ''Google API key is not configured. Please set GOOGLE_API_KEY in your .env file or use the Settings UI.'')
      else Inr \<lparr>intervalId = None, timers = [], next_handle = 0, runs_started = 0\<rparr>)"

definition arm :: "bool \<Rightarrow> callback \<Rightarrow> jsnum \<Rightarrow> sched_state \<Rightarrow> nat \<times> sched_state" where
  \<comment> \<open>\<open>setTimeout(cb, d)\<close> and \<open>setInterval(cb, d)\<close>: the handle and the new state\<close>
  "arm rep cb d s =
     (next_handle s,
      s\<lparr>timers := timers s @ [\<lparr>handle = next_handle s, repeating = rep, delay = d, action = cb\<rparr>],
        next_handle := Suc (next_handle s)\<rparr>)"

definition clearInterval :: "nat \<Rightarrow> sched_state \<Rightarrow> sched_state" where
  "clearInterval h s = s\<lparr>timers := filter (\<lambda>t. handle t \<noteq> h) (timers s)\<rparr>"

definition runOnce :: "sched_state \<Rightarrow> sched_state" where
  \<comment> \<open>the call itself never throws: \<open>runOnce\<close> is asynchronous and every caller attaches
      \<open>.catch\<close>\<close>
  "runOnce s = s\<lparr>runs_started := Suc (runs_started s)\<rparr>"

definition schedule_parts :: "Config \<Rightarrow> jsnum \<times> jsnum" where
  \<comment> \<open>\<open>const [hours, minutes] = config.schedule.time.split(':').map(Number)\<close>; a missing
      element is \<open>undefined\<close>, which \<open>setHours\<close> converts to NaN\<close>
  "schedule_parts cfg =
     (let parts = map Number (split_str CHR '':'' (time (schedule cfg)))
      in (if 0 < length parts then parts ! 0 else NaN,
          if 1 < length parts then parts ! 1 else NaN))"

definition scheduledTime :: "Config \<Rightarrow> zone \<Rightarrow> int \<Rightarrow> int \<Rightarrow> jsnum" where
  \<comment> \<open>\<open>now\<close> and \<open>now'\<close> are the clock readings of the two \<open>new Date()\<close>\<close>
  "scheduledTime cfg z now now' =
     (let (hours, minutes) = schedule_parts cfg;
          st = setHours z (Fin (of_int now')) hours minutes (Fin 0) (Fin 0)
      in if js_le st (Fin (of_int now)) then setDate_next z st else st)"

definition msUntilNext :: "Config \<Rightarrow> zone \<Rightarrow> int \<Rightarrow> int \<Rightarrow> jsnum" where
  "msUntilNext cfg z now now' = js_sub (scheduledTime cfg z now now') (Fin (of_int now))"

definition startDailySchedule ::
  "Config \<Rightarrow> zone \<Rightarrow> int \<Rightarrow> int \<Rightarrow> sched_state \<Rightarrow> js_error + sched_state" where
  "startDailySchedule cfg z now now' s =
     (let d = msUntilNext cfg z now now'
      in if \<not> is_finite (scheduledTime cfg z now now') then Inl RangeError  \<comment> \<open>\<open>toISOString()\<close>\<close>
         else let s1 = (if js_gt d (Fin 3600000) then runOnce s else s)
              in Inr (snd (arm False FirstRun d s1)))"

definition fire :: "nat \<Rightarrow> sched_state \<Rightarrow> sched_state" where
  \<comment> \<open>the event loop runs the callback of the armed timer \<open>h\<close>\<close>
  "fire h s =
     (case find (\<lambda>t. handle t = h) (timers s) of
        None \<Rightarrow> s
      | Some t \<Rightarrow>
          let s0 = (if repeating t then s else clearInterval h s)
          in (case action t of
                FirstRun \<Rightarrow>
                  let (i, s1) = arm True DailyRun (Fin 86400000) (runOnce s0)
                  in s1\<lparr>intervalId := Some i\<rparr>
              | DailyRun \<Rightarrow> runOnce s0))"

definition stop :: "sched_state \<Rightarrow> sched_state" where
  "stop s =
     (case intervalId s of
        None \<Rightarrow> s
      | Some i \<Rightarrow> (clearInterval i s)\<lparr>intervalId := None\<rparr>)"

subsection \<open>The target the specification describes\<close>

text \<open>
  ``Today at HH:MM in zone \<open>z\<close>, or tomorrow at HH:MM if that has passed'', for a schedule
  time given as hour and minute, read with the rules of an arbitrary zone \<open>z\<close>.
\<close>

definition wall_clock :: "zone \<Rightarrow> int \<Rightarrow> int \<Rightarrow> int \<Rightarrow> rat" where
  \<comment> \<open>the instant at which the clocks of zone \<open>z\<close> show hour \<open>h\<close>, minute \<open>m\<close> on local day
      \<open>day\<close>\<close>
  "wall_clock z day h m =
     (let local = of_int (day * 86400000 + h * 3600000 + m * 60000)
      in local - of_int (z local False))"

definition local_day :: "zone \<Rightarrow> int \<Rightarrow> int" where
  "local_day z now = \<lfloor>(of_int now + of_int (z (of_int now) True) :: rat) / 86400000\<rfloor>"

definition next_target :: "zone \<Rightarrow> int \<Rightarrow> int \<Rightarrow> int \<Rightarrow> rat" where
  "next_target z h m now =
     (let today = wall_clock z (local_day z now) h m
      in if today \<le> of_int now then wall_clock z (local_day z now + 1) h m else today)"

section \<open>Image generation: the error handler of \<open>generateImage\<close> (services/imageGenerator, in src/unnamed/part_001)\<close>

datatype thrown =
    ErrorInstance string string  \<comment> \<open>an instance of \<open>Error\<close>: its class and its message\<close>
  | OtherValue string            \<comment> \<open>any other thrown value\<close>

definition lower_char :: "char \<Rightarrow> char" where
  \<comment> \<open>\<open>toLowerCase\<close> on a code unit below 256\<close>
  "lower_char c =
     (let n = (of_char c :: nat)
      in if (65 \<le> n \<and> n \<le> 90) \<or> (192 \<le> n \<and> n \<le> 222 \<and> n \<noteq> 215) then char_of (n + 32) else c)"

definition toLowerCase :: "string \<Rightarrow> string" where
  "toLowerCase s = map lower_char s"

definition rethrow :: "string \<Rightarrow> thrown \<Rightarrow> thrown" where
  \<comment> \<open>the \<open>catch\<close> block: the value it throws\<close>
  "rethrow modelName err =
     (case err of
        ErrorInstance cls message \<Rightarrow>
          let errorMessage = toLowerCase message
          in if str_includes errorMessage ''api key'' \<or> str_includes errorMessage ''authentication''
                \<or> str_includes errorMessage ''401'' \<or> str_includes errorMessage ''403''
             then ErrorInstance ''Error''
                    ''Invalid API key. Please check your GOOGLE_API_KEY in settings.''
             else if str_includes errorMessage ''not found'' \<or> str_includes errorMessage ''404''
             then ErrorInstance ''Error''
                    (''Model '' @ modelName @ '' not found. Please check your model configuration.'')
             else if str_includes errorMessage ''quota'' \<or> str_includes errorMessage ''rate limit''
             then ErrorInstance ''Error''
                    ''API quota exceeded or rate limit reached. Please try again later.''
             else if str_includes errorMessage ''invalid'' \<or> str_includes errorMessage ''400''
             then ErrorInstance ''Error'' (''Invalid request: '' @ message)
             else err
      | OtherValue v \<Rightarrow> err)"

definition generateImage :: "string \<Rightarrow> thrown + string \<Rightarrow> thrown + string" where
  \<comment> \<open>the second argument is what the \<open>try\<close> block did: the path of the saved image, or the
      value thrown in it\<close>
  "generateImage modelName attempt =
     (case attempt of Inr imagePath \<Rightarrow> Inr imagePath | Inl err \<Rightarrow> Inl (rethrow modelName err))"

subsection \<open>The classification the specification describes\<close>

datatype category = Credential | NotFound | QuotaRateLimit | MalformedRequest

definition category_markers :: "(category \<times> string list) list" where
  "category_markers =
     [(Credential, [''api key'', ''authentication'', ''401'', ''403'']),
      (NotFound, [''not found'', ''404'']),
      (QuotaRateLimit, [''quota'', ''rate limit'']),
      (MalformedRequest, [''invalid'', ''400''])]"

definition classify :: "string \<Rightarrow> category option" where
  \<comment> \<open>the first category one of whose markers occurs in the message, case ignored\<close>
  "classify message =
     map_option fst
       (find (\<lambda>(c, ms). list_ex (str_includes (toLowerCase message)) ms) category_markers)"

definition clearer_message :: "string \<Rightarrow> category \<Rightarrow> string \<Rightarrow> string" where
  "clearer_message modelName c message =
     (case c of
        Credential \<Rightarrow> ''Invalid API key. Please check your GOOGLE_API_KEY in settings.''
      | NotFound \<Rightarrow> ''Model '' @ modelName @ '' not found. Please check your model configuration.''
      | QuotaRateLimit \<Rightarrow> ''API quota exceeded or rate limit reached. Please try again later.''
      | MalformedRequest \<Rightarrow> ''Invalid request: '' @ message)"


section \<open>Properties of the number model\<close>

lemma bit_length_le: "0 \<le> k \<Longrightarrow> m < 2 ^ nat k \<Longrightarrow> bit_length m \<le> k"
proof (induction m arbitrary: k rule: bit_length.induct)
  case (1 n)
  show ?case
  proof (cases "n \<le> 0")
    case True
    then show ?thesis using "1.prems" by (simp add: bit_length.simps)
  next
    case False
    then have k1: "1 \<le> k" using "1.prems"
      by (cases "k = 0") auto
    have "n div 2 < 2 ^ nat (k - 1)"
    proof -
      have "(2::int) ^ nat k = 2 * 2 ^ nat (k - 1)"
        using k1 by (metis Suc_nat_eq_nat_zadd1 diff_ge_0_iff_ge diff_add_cancel power_Suc add.commute)
      then show ?thesis using "1.prems" by linarith
    qed
    with "1.IH" [OF False, of "k - 1"] k1 have "bit_length (n div 2) \<le> k - 1" by simp
    then show ?thesis using False by (simp add: bit_length.simps [of n])
  qed
qed

lemma bit_length_nonneg: "0 \<le> bit_length m"
  by (induction m rule: bit_length.induct) (simp add: bit_length.simps)

lemma bit_length_1: "bit_length 1 = 1"
  by (simp add: bit_length.simps [of 1] bit_length.simps [of 0])

lemma round_half_even_int: "round_half_even (of_int z) = z"
  by (simp add: round_half_even_def)

lemma pow2_pos: "0 < pow2 k"
  by (simp add: pow2_def)

lemma round_double_pos_int:
  assumes "0 < m" "m < 2 ^ 53"
  shows "round_double (of_int m) = Fin (of_int m)" "round_double (- of_int m) = Fin (- of_int m)"
proof -
  define x :: rat where "x = of_int m"
  define p where "p = max (floor_log2 x - 52) (- 1074)"
  have bl: "bit_length m \<le> 53" using bit_length_le [of 53 m] assms by simp
  have "floor_log2 x \<le> bit_length m - 1"
    by (simp add: floor_log2_def x_def bit_length_1 Let_def)
  then have p0: "p \<le> 0" and p1: "- 1074 \<le> p" using bl by (auto simp: p_def)
  define j where "j = nat (- p)"
  have pw: "pow2 p = 1 / 2 ^ j" using p0 by (cases "p = 0") (auto simp: pow2_def j_def)
  have xd: "x / pow2 p = of_int (m * 2 ^ j)" by (simp add: pw x_def)
  have v: "of_int (round_half_even (x / pow2 p)) * pow2 p = x"
    unfolding xd round_half_even_int by (simp add: pw x_def)
  have lt: "x < pow2 1024"
  proof -
    have "x < 2 ^ 53" using assms unfolding x_def by (metis of_int_less_numeral_power_cancel_iff)
    also have "(2::rat) ^ 53 \<le> 2 ^ 1024" by (rule power_increasing) auto
    finally show ?thesis by (simp add: pow2_def)
  qed
  have xpos: "0 < x" using assms by (simp add: x_def)
  show "round_double (of_int m) = Fin (of_int m)"
    using xpos lt v unfolding round_double_def Let_def x_def [symmetric] p_def [symmetric]
    by (simp add: abs_of_pos p_def)
  show "round_double (- of_int m) = Fin (- of_int m)"
    using xpos lt v unfolding round_double_def Let_def x_def [symmetric]
    by (simp add: abs_of_pos p_def)
qed

lemma round_double_int:
  assumes "\<bar>n\<bar> < 2 ^ 53"
  shows "round_double (of_int n) = Fin (of_int n)"
proof -
  consider "n = 0" | "0 < n" | "n < 0" by linarith
  then show ?thesis
  proof cases
    case 1 then show ?thesis by (simp add: round_double_def)
  next
    case 2 then show ?thesis using assms round_double_pos_int(1) [of n] by simp
  next
    case 3 then show ?thesis using assms round_double_pos_int(2) [of "- n"] by simp
  qed
qed

lemma digit_not_ws: "is_digit c \<Longrightarrow> \<not> is_ws c"
  by (auto simp: is_digit_def is_ws_def)

lemma trim_digits:
  assumes "s \<noteq> []" "list_all is_digit s"
  shows "trim s = s"
proof -
  have "\<not> is_ws (hd s)" using assms by (cases s) (auto simp: digit_not_ws)
  then have a: "dropWhile is_ws s = s" using assms by (cases s) auto
  have "\<not> is_ws (hd (rev s))"
    using assms by (simp add: hd_rev list_all_iff digit_not_ws)
  then have b: "dropWhile is_ws (rev s) = rev s" using assms by (cases "rev s") auto
  show ?thesis by (simp add: trim_def a b)
qed

lemma parse_non_decimal_digits:
  assumes "list_all is_digit s"
  shows "parse_non_decimal s = None"
proof (cases s)
  case Nil
  then show ?thesis by (simp add: parse_non_decimal_def)
next
  case (Cons z r)
  show ?thesis
  proof (cases r)
    case Nil
    then show ?thesis using Cons by (simp add: parse_non_decimal_def)
  next
    case (Cons k ds)
    then have "is_digit k" using assms \<open>s = z # r\<close> by simp
    then have "k \<notin> set ''xXoObB''" by (auto simp: is_digit_def)
    then show ?thesis using Cons \<open>s = z # r\<close> by (simp add: parse_non_decimal_def)
  qed
qed

lemma parse_unsigned_decimal_digits:
  assumes "s \<noteq> []" "list_all is_digit s" "\<bar>digits_val 10 s\<bar> < 2 ^ 53"
  shows "parse_unsigned_decimal s = Fin (of_int (digits_val 10 s))"
proof -
  have "\<not> list_all is_digit ''Infinity''" by (simp add: is_digit_def)
  then have ne: "s \<noteq> ''Infinity''" using assms(2) by blast
  have tw: "takeWhile is_digit s = s" "dropWhile is_digit s = []"
    using assms(2) by (simp_all add: list_all_iff)
  show ?thesis
    using ne assms(1) round_double_int [OF assms(3)]
    by (simp add: parse_unsigned_decimal_def tw parse_exponent_def pow10_def Let_def)
qed

lemma Number_digits:
  assumes "s \<noteq> []" "list_all is_digit s" "\<bar>digits_val 10 s\<bar> < 2 ^ 53"
  shows "Number s = Fin (of_int (digits_val 10 s))"
proof -
  have "is_digit (hd s)" using assms by (cases s) auto
  then have "hd s \<noteq> CHR ''+''" "hd s \<noteq> CHR ''-''" by (auto simp: is_digit_def)
  then show ?thesis
    using assms
    by (simp add: Number_def trim_digits parse_non_decimal_digits parse_unsigned_decimal_digits)
qed


section \<open>Properties of the version comparison\<close>

lemma or0_not_NaN: "or0 x \<noteq> NaN"
  by (simp add: or0_def)

lemma js_lt_irrefl: "\<not> js_lt a a"
  by (cases a) simp_all

lemma js_lt_total: "a \<noteq> NaN \<Longrightarrow> b \<noteq> NaN \<Longrightarrow> \<not> js_lt a b \<Longrightarrow> \<not> js_lt b a \<Longrightarrow> a = b"
  by (cases a; cases b) simp_all

lemma js_lt_asym: "js_lt a b \<Longrightarrow> \<not> js_lt b a"
  by (cases a; cases b) simp_all

lemma length_pad_to: "length xs \<le> k \<Longrightarrow> length (pad_to k xs) = k"
  by (simp add: pad_to_def)

lemma pad_to_nth: "i < k \<Longrightarrow> length xs \<le> k \<Longrightarrow> pad_to k (map or0 xs) ! i = part_or0 xs i"
  by (simp add: pad_to_def part_or0_def nth_append)

lemma loop_past_end: "max (length np) (length cp) \<le> i \<Longrightarrow> \<not> isNewerVersion_loop np cp i"
  by (subst isNewerVersion_loop.simps) (simp add: not_less [symmetric] del: max_less_iff_conj)

lemma loop_first_difference:
  assumes k: "k = max (length np) (length cp)"
  shows "i \<le> k \<Longrightarrow>
         isNewerVersion_loop np cp i =
           (case first_difference (drop i (pad_to k (map or0 np))) (drop i (pad_to k (map or0 cp))) of
              None \<Rightarrow> False
            | Some (a, b) \<Rightarrow> js_gt a b)"
proof (induction "k - i" arbitrary: i)
  case 0
  then have "i = k" by simp
  then show ?case
    using k by (simp add: loop_past_end length_pad_to)
next
  case (Suc n)
  then have ik: "i < k" by simp
  let ?A = "pad_to k (map or0 np)" and ?B = "pad_to k (map or0 cp)"
  have lA: "length ?A = k" and lB: "length ?B = k"
    using k by (simp_all add: length_pad_to)
  have dA: "drop i ?A = part_or0 np i # drop (Suc i) ?A"
    using ik lA k pad_to_nth [of i k np] by (simp add: Cons_nth_drop_Suc [symmetric])
  have dB: "drop i ?B = part_or0 cp i # drop (Suc i) ?B"
    using ik lB k pad_to_nth [of i k cp] by (simp add: Cons_nth_drop_Suc [symmetric])
  have IH: "isNewerVersion_loop np cp (Suc i) =
           (case first_difference (drop (Suc i) ?A) (drop (Suc i) ?B) of
              None \<Rightarrow> False | Some (a, b) \<Rightarrow> js_gt a b)"
    using Suc.hyps(1) [of "Suc i"] Suc.hyps(2) ik by simp
  have nn: "part_or0 np i \<noteq> NaN" "part_or0 cp i \<noteq> NaN"
    by (simp_all add: part_or0_def or0_not_NaN)
  show ?case
  proof (cases "part_or0 np i = part_or0 cp i")
    case True
    then show ?thesis
      using ik k IH unfolding dA dB
      by (simp add: isNewerVersion_loop.simps [of np cp i] js_gt_def js_lt_irrefl)
  next
    case False
    then have "js_lt (part_or0 np i) (part_or0 cp i) \<or> js_lt (part_or0 cp i) (part_or0 np i)"
      using nn js_lt_total by blast
    then show ?thesis
      using ik k False js_lt_asym [of "part_or0 np i" "part_or0 cp i"] unfolding dA dB
      by (auto simp add: isNewerVersion_loop.simps [of np cp i] js_gt_def)
  qed
qed

lemma isNewerVersion_refines: "isNewerVersion n c = newer_by_components n c"
  using loop_first_difference [OF refl, of 0 "map Number (split_str CHR ''.'' n)" "map Number (split_str CHR ''.'' c)"]
  by (simp add: isNewerVersion_def newer_by_components_def components_def Let_def comp_def)

lemma split_str_nonempty: "split_str c s \<noteq> []"
  by (induction s) (auto split: list.splits)

lemma split_str_no_sep: "p \<in> set (split_str c s) \<Longrightarrow> c \<notin> set p"
proof (induction s arbitrary: p)
  case Nil
  then show ?case by simp
next
  case (Cons x xs)
  then show ?case
    by (cases "split_str c xs") (auto split: if_splits simp: split_str_nonempty)
qed

lemma split_str_single: "c \<notin> set p \<Longrightarrow> split_str c p = [p]"
  by (induction p) auto

lemma split_str_append: "c \<notin> set p \<Longrightarrow> split_str c (p @ c # r) = p # split_str c r"
  by (induction p) auto

lemma split_join:
  "xs \<noteq> [] \<Longrightarrow> \<forall>p\<in>set xs. c \<notin> set p \<Longrightarrow> split_str c (join_str c xs) = xs"
proof (induction c xs rule: join_str.induct)
  case (1 c)
  then show ?case by simp
next
  case (2 c p)
  then show ?case by (simp add: split_str_single)
next
  case (3 c p q ps)
  then show ?case by (simp add: split_str_append)
qed

lemma Number_0: "Number ''0'' = Fin 0"
  by (subst Number_digits) (simp_all add: is_digit_def digits_val_def hex_val_def)

lemma Number_1: "Number ''1'' = Fin 1"
  by (subst Number_digits) (simp_all add: is_digit_def digits_val_def hex_val_def)

lemma Number_2: "Number ''2'' = Fin 2"
  by (subst Number_digits) (simp_all add: is_digit_def digits_val_def hex_val_def)

lemma Number_9: "Number ''9'' = Fin 9"
  by (subst Number_digits) (simp_all add: is_digit_def digits_val_def hex_val_def)

lemma Number_10: "Number ''10'' = Fin 10"
  by (subst Number_digits) (simp_all add: is_digit_def digits_val_def hex_val_def)

lemma Number_beta: "Number ''beta'' = NaN"
  by (simp add: Number_def trim_def is_ws_def parse_non_decimal_def parse_unsigned_decimal_def
      is_digit_def)

lemmas Number_examples = Number_0 Number_1 Number_2 Number_9 Number_10 Number_beta

lemma split_replace:
  assumes "i < length (split_str CHR ''.'' v)"
  shows "split_str CHR ''.'' (replace_component i ''0'' v) = (split_str CHR ''.'' v)[i := ''0'']"
proof -
  have "\<forall>p\<in>set ((split_str CHR ''.'' v)[i := ''0'']). CHR ''.'' \<notin> set p"
    using split_str_no_sep [of _ "CHR ''.''" v] set_update_subset_insert [of "split_str CHR ''.'' v" i "''0''"]
    by auto
  then show ?thesis
    unfolding replace_component_def by (intro split_join) (simp_all add: split_str_nonempty)
qed

lemma components_replace:
  assumes "i < length (split_str CHR ''.'' v)" "Number (split_str CHR ''.'' v ! i) = NaN"
  shows "components (replace_component i ''0'' v) = components v"
proof -
  have "(components v) ! i = Fin 0"
    using assms by (simp add: components_def or0_def)
  moreover have "components (replace_component i ''0'' v) = (components v)[i := Fin 0]"
    using assms(1) by (simp add: components_def split_replace map_update Number_0 or0_def)
  ultimately show ?thesis by (metis list_update_id)
qed

lemma components_examples:
  "components ''1.2.0'' = [Fin 1, Fin 2, Fin 0]"
  "components ''1.10.0'' = [Fin 1, Fin 10, Fin 0]"
  "components ''2.0.0'' = [Fin 2, Fin 0, Fin 0]"
  "components ''1.9.9'' = [Fin 1, Fin 9, Fin 9]"
  "components ''1.0'' = [Fin 1, Fin 0]"
  "components ''1.0.0'' = [Fin 1, Fin 0, Fin 0]"
  "components ''1.0.beta'' = [Fin 1, Fin 0, Fin 0]"
  by (simp_all add: components_def Number_examples or0_def)

text \<open>
  C2.  For every pair of version strings \<open>isNewerVersion\<close> compares the numeric components
  from the left, a missing trailing component counting as 0: it is true exactly when the
  first component at which the two versions differ is larger in the new one, and false when
  none differs.  In particular it is false on ("1.2.0", "1.10.0"), true on
  ("2.0.0", "1.9.9") and false on ("1.0", "1.0.0").
\<close>

theorem isNewerVersion_first_difference:
  "isNewerVersion n c = newer_by_components n c
   \<and> isNewerVersion ''1.2.0'' ''1.10.0'' = False
   \<and> isNewerVersion ''2.0.0'' ''1.9.9'' = True
   \<and> isNewerVersion ''1.0'' ''1.0.0'' = False"
proof -
  have "newer_by_components ''1.2.0'' ''1.10.0'' = False"
    by (simp add: newer_by_components_def components_examples pad_to_def js_gt_def)
  moreover have "newer_by_components ''2.0.0'' ''1.9.9'' = True"
    by (simp add: newer_by_components_def components_examples pad_to_def js_gt_def)
  moreover have "newer_by_components ''1.0'' ''1.0.0'' = False"
    by (simp add: newer_by_components_def components_examples pad_to_def js_gt_def)
  ultimately show ?thesis by (simp add: isNewerVersion_refines)
qed

text \<open>
  C10.  A component of a version string that does not parse as a number is read as NaN and
  replaced by 0: the comparison is the same, in both argument positions, as with that
  component written \<open>0\<close>.  So "1.0.beta" compares equal to "1.0.0" and to "1.0", and
  \<open>isNewerVersion\<close> is false in both argument orders on these pairs.
\<close>

theorem isNewerVersion_nonnumeric_component:
  "(i < length (split_str CHR ''.'' v) \<and> Number (split_str CHR ''.'' v ! i) = NaN \<longrightarrow>
      components v ! i = Fin 0
      \<and> isNewerVersion v w = isNewerVersion (replace_component i ''0'' v) w
      \<and> isNewerVersion w v = isNewerVersion w (replace_component i ''0'' v))
   \<and> components ''1.0.beta'' = components ''1.0.0''
   \<and> isNewerVersion ''1.0.beta'' ''1.0.0'' = False
   \<and> isNewerVersion ''1.0.0'' ''1.0.beta'' = False
   \<and> isNewerVersion ''1.0.beta'' ''1.0'' = False
   \<and> isNewerVersion ''1.0'' ''1.0.beta'' = False"
proof -
  have gen: "components v ! i = Fin 0
      \<and> isNewerVersion v w = isNewerVersion (replace_component i ''0'' v) w
      \<and> isNewerVersion w v = isNewerVersion w (replace_component i ''0'' v)"
    if "i < length (split_str CHR ''.'' v)" "Number (split_str CHR ''.'' v ! i) = NaN"
    using that components_replace [OF that]
    by (simp add: isNewerVersion_refines newer_by_components_def components_def or0_def)
  have ex: "newer_by_components ''1.0.beta'' ''1.0.0'' = False"
    "newer_by_components ''1.0.0'' ''1.0.beta'' = False"
    "newer_by_components ''1.0.beta'' ''1.0'' = False"
    "newer_by_components ''1.0'' ''1.0.beta'' = False"
    by (simp_all add: newer_by_components_def components_examples pad_to_def js_gt_def)
  show ?thesis using gen ex by (simp add: isNewerVersion_refines components_examples)
qed

theorem isNewerVersion_nonnumeric_component_witness:
  "2 < length (split_str CHR ''.'' ''1.0.beta'')
   \<and> Number (split_str CHR ''.'' ''1.0.beta'' ! 2) = NaN
   \<and> components ''1.0.beta'' ! 2 = Fin 0
   \<and> replace_component 2 ''0'' ''1.0.beta'' = ''1.0.0''
   \<and> isNewerVersion ''1.0.beta'' ''1.0.0'' = isNewerVersion ''1.0.0'' ''1.0.0''
   \<and> isNewerVersion ''1.0.0'' ''1.0.beta'' = isNewerVersion ''1.0.0'' ''1.0.0''"
proof -
  have h: "2 < length (split_str CHR ''.'' ''1.0.beta'')
      \<and> Number (split_str CHR ''.'' ''1.0.beta'' ! 2) = NaN"
    by (simp add: Number_beta)
  have r: "replace_component 2 ''0'' ''1.0.beta'' = ''1.0.0''"
    by (simp add: replace_component_def)
  from h isNewerVersion_nonnumeric_component [of 2 "''1.0.beta''" "''1.0.0''"]
  have "components ''1.0.beta'' ! 2 = Fin 0
      \<and> isNewerVersion ''1.0.beta'' ''1.0.0''
          = isNewerVersion (replace_component 2 ''0'' ''1.0.beta'') ''1.0.0''
      \<and> isNewerVersion ''1.0.0'' ''1.0.beta''
          = isNewerVersion ''1.0.0'' (replace_component 2 ''0'' ''1.0.beta'')"
    by blast
  then show ?thesis using h r by simp
qed


section \<open>Properties of the update check\<close>

text \<open>
  C3.  \<open>checkForUpdates\<close> never throws to its caller.  When the release-feed request fails,
  with HTTP 404 or with any other error, it returns the current version, not available,
  with an empty download reference; and whatever the request produced, also a body with
  missing fields, the result is a value and not an exception.
\<close>

theorem checkForUpdates_never_throws:
  "checkForUpdates currentVersion (Failed (AxiosError (Some 404)))
     = Inr \<lparr>version = currentVersion, available = False, downloadUrl = [],
            releaseNotes = None, publishedAt = None\<rparr>
   \<and> checkForUpdates currentVersion (Failed e)
     = Inr \<lparr>version = currentVersion, available = False, downloadUrl = [],
            releaseNotes = None, publishedAt = None\<rparr>
   \<and> (\<exists>info. checkForUpdates currentVersion outcome = Inr info)"
proof -
  have f: "checkForUpdates currentVersion (Failed x) = Inr (not_available currentVersion)" for x
    by (simp add: checkForUpdates_def checkForUpdates_try_def)
  have "\<exists>info. checkForUpdates currentVersion outcome = Inr info"
    by (cases "checkForUpdates_try currentVersion outcome") (simp_all add: checkForUpdates_def)
  then show ?thesis by (simp add: f not_available_def)
qed

section \<open>Properties of the error handler of the image generator\<close>

lemma classify_cases:
  "classify message =
     (let m = toLowerCase message
      in if str_includes m ''api key'' \<or> str_includes m ''authentication''
            \<or> str_includes m ''401'' \<or> str_includes m ''403'' then Some Credential
         else if str_includes m ''not found'' \<or> str_includes m ''404'' then Some NotFound
         else if str_includes m ''quota'' \<or> str_includes m ''rate limit'' then Some QuotaRateLimit
         else if str_includes m ''invalid'' \<or> str_includes m ''400'' then Some MalformedRequest
         else None)"
  by (simp add: classify_def category_markers_def Let_def)

text \<open>
  C9.  The error handler of \<open>generateImage\<close> classifies an error by the content of its
  message, case ignored, into four categories: credential (api key, authentication, 401,
  403), not found (not found, 404), quota or rate limit (quota, rate limit) and malformed
  request (invalid, 400), the first that applies in this order, and throws a new error with
  the clearer message of the category.  Every other failure is thrown again unchanged, and
  a successful generation is returned as it is.
\<close>

theorem generateImage_classifies_errors:
  "generateImage modelName (Inl (ErrorInstance cls message))
     = Inl (case classify message of
              Some c \<Rightarrow> ErrorInstance ''Error'' (clearer_message modelName c message)
            | None \<Rightarrow> ErrorInstance cls message)
   \<and> generateImage modelName (Inl (OtherValue v)) = Inl (OtherValue v)
   \<and> generateImage modelName (Inr imagePath) = Inr imagePath"
  by (simp add: generateImage_def rethrow_def classify_cases clearer_message_def Let_def)


section \<open>Properties of the configuration\<close>

lemma str_or_getEnvVar: "d \<noteq> [] \<Longrightarrow> str_or (getEnvVar env key (Some d)) d = default_or_value d (env key)"
  by (cases "env key") (simp_all add: str_or_def getEnvVar_def truthy_def default_or_value_def)

text \<open>
  C8 fails as stated on a file with the lines \<open>SCHEDULE_TIME=\<close>,
  \<open>GOOGLE_API_URL=https://api.google.com/nano-banana-pro/generate\<close> and
  \<open>IMAGES_DIR=./images\<close>: all three keys are present and none is left unchanged.  The
  empty schedule time and the deprecated endpoint are replaced by their defaults, and the
  images directory is the one under the user data directory.
\<close>

theorem config_present_keys_counterexample:
  "time (schedule (config ''/home/user/.config/screensaver/images''
       (Map.empty(''SCHEDULE_TIME'' \<mapsto> [],
          ''GOOGLE_API_URL'' \<mapsto> ''https://api.google.com/nano-banana-pro/generate'',
          ''IMAGES_DIR'' \<mapsto> ''./images'')))) = ''09:00''
   \<and> apiUrl (google (config ''/home/user/.config/screensaver/images''
       (Map.empty(''SCHEDULE_TIME'' \<mapsto> [],
          ''GOOGLE_API_URL'' \<mapsto> ''https://api.google.com/nano-banana-pro/generate'',
          ''IMAGES_DIR'' \<mapsto> ''./images''))))
     = ''https://generativelanguage.googleapis.com/v1beta/models/gemini-3-pro-image-preview:generateContent''
   \<and> imagesDir (app (config ''/home/user/.config/screensaver/images''
       (Map.empty(''SCHEDULE_TIME'' \<mapsto> [],
          ''GOOGLE_API_URL'' \<mapsto> ''https://api.google.com/nano-banana-pro/generate'',
          ''IMAGES_DIR'' \<mapsto> ''./images''))))
     = ''/home/user/.config/screensaver/images''"
proof -
  let ?E = "Map.empty(''SCHEDULE_TIME'' \<mapsto> [],
          ''GOOGLE_API_URL'' \<mapsto> ''https://api.google.com/nano-banana-pro/generate'',
          ''IMAGES_DIR'' \<mapsto> ''./images'')"
  let ?d = "''/home/user/.config/screensaver/images''"
  have t: "time (schedule (config ?d ?E)) = ''09:00''"
    by (simp add: config_def getEnvVar_def truthy_def str_or_def)
  have inc: "str_includes ''https://api.google.com/nano-banana-pro/generate'' ''nano-banana-pro''"
    by simp
  have "correctedApiUrl ?E = canonical_url"
    using inc by (simp add: correctedApiUrl_def getEnvVar_def truthy_def Let_def)
  then have u: "apiUrl (google (config ?d ?E))
      = ''https://generativelanguage.googleapis.com/v1beta/models/gemini-3-pro-image-preview:generateContent''"
    by (simp add: config_def canonical_url_def)
  have i: "imagesDir (app (config ?d ?E)) = ?d"
    by (simp add: config_def)
  show ?thesis using t u i by blast
qed

lemma correctedApiUrl_cases:
  "correctedApiUrl env
     = (case env ''GOOGLE_API_URL'' of
          None \<Rightarrow> canonical_url
        | Some u \<Rightarrow>
            if u = [] \<or> str_includes u ''nano-banana-pro'' \<or> str_includes u ''api.google.com''
               \<or> str_includes u ''-exp''
            then canonical_url else u)"
  by (cases "env ''GOOGLE_API_URL''")
     (simp_all add: correctedApiUrl_def getEnvVar_def truthy_def str_or_def Let_def)

text \<open>
  C8, amended.  For every key, what \<open>load()\<close> yields depends on that key alone.  A key with
  a default that is read from the environment (GOOGLE_API_URL, IMAGE_PROMPT, ASPECT_RATIO,
  IMAGE_SIZE, LOG_LEVEL, SCHEDULE_TIME, TIMEZONE) loads as its documented default when the
  key is absent or its value is empty, and as its own value when it is present and not
  empty; except that a GOOGLE_API_URL that contains one of the deprecated markers
  \<open>nano-banana-pro\<close>, \<open>api.google.com\<close>, \<open>-exp\<close> loads as the default endpoint.  GOOGLE_API_KEY,
  which has no default, loads as its own value when that is not empty and as undefined
  otherwise.  IMAGES_DIR is not read: the images directory is always the directory
  \<open>images\<close> under the user data directory.
\<close>

theorem config_defaults:
  "imagePrompt (app (config d env))
     = default_or_value ''A beautiful serene landscape with mountains and a river at sunrise''
         (env ''IMAGE_PROMPT'')
   \<and> aspectRatio (app (config d env)) = default_or_value ''16:9'' (env ''ASPECT_RATIO'')
   \<and> imageSize (app (config d env)) = default_or_value ''1K'' (env ''IMAGE_SIZE'')
   \<and> logLevel (app (config d env)) = default_or_value ''info'' (env ''LOG_LEVEL'')
   \<and> time (schedule (config d env)) = default_or_value ''09:00'' (env ''SCHEDULE_TIME'')
   \<and> timezone (schedule (config d env))
     = default_or_value ''America/New_York'' (env ''TIMEZONE'')
   \<and> apiKey (google (config d env))
     = (case env ''GOOGLE_API_KEY'' of None \<Rightarrow> None | Some v \<Rightarrow> if v = [] then None else Some v)
   \<and> apiUrl (google (config d env))
     = (case env ''GOOGLE_API_URL'' of
          None \<Rightarrow> canonical_url
        | Some u \<Rightarrow>
            if u = [] \<or> str_includes u ''nano-banana-pro'' \<or> str_includes u ''api.google.com''
               \<or> str_includes u ''-exp''
            then canonical_url else u)
   \<and> imagesDir (app (config d env)) = d"
proof -
  have k: "apiKey (google (config d env))
     = (case env ''GOOGLE_API_KEY'' of None \<Rightarrow> None | Some v \<Rightarrow> if v = [] then None else Some v)"
    by (cases "env ''GOOGLE_API_KEY''") (simp_all add: config_def getEnvVar_def truthy_def)
  have u: "apiUrl (google (config d env)) = correctedApiUrl env"
    by (simp add: config_def)
  have r: "imagePrompt (app (config d env))
     = default_or_value ''A beautiful serene landscape with mountains and a river at sunrise''
         (env ''IMAGE_PROMPT'')
   \<and> aspectRatio (app (config d env)) = default_or_value ''16:9'' (env ''ASPECT_RATIO'')
   \<and> imageSize (app (config d env)) = default_or_value ''1K'' (env ''IMAGE_SIZE'')
   \<and> logLevel (app (config d env)) = default_or_value ''info'' (env ''LOG_LEVEL'')
   \<and> time (schedule (config d env)) = default_or_value ''09:00'' (env ''SCHEDULE_TIME'')
   \<and> timezone (schedule (config d env))
     = default_or_value ''America/New_York'' (env ''TIMEZONE'')
   \<and> imagesDir (app (config d env)) = d"
    by (simp add: config_def str_or_getEnvVar)
  show ?thesis using k r unfolding u correctedApiUrl_cases by blast
qed

lemma config_examples:
  "time (schedule (config d Map.empty)) = ''09:00''"
  "aspectRatio (app (config d Map.empty)) = ''16:9''"
  "imageSize (app (config d Map.empty)) = ''1K''"
  "timezone (schedule (config d Map.empty)) = ''America/New_York''"
  "time (schedule (config d (Map.empty(''SCHEDULE_TIME'' \<mapsto> ''18:30'')))) = ''18:30''"
  "apiUrl (google (config d Map.empty)) = canonical_url"
  by (simp_all add: config_def str_or_getEnvVar default_or_value_def correctedApiUrl_cases)

lemma canonical_not_deprecated:
  "\<not> str_includes canonical_url ''nano-banana-pro''"
  "\<not> str_includes canonical_url ''api.google.com''"
  "\<not> str_includes canonical_url ''-exp''"
  "\<not> str_includes canonical_url ''gemini-2.5-flash-image''"
  "\<not> str_includes canonical_url ''flash-image''"
  "str_includes canonical_url ''gemini-3-pro''"
  "str_includes canonical_url ''image''"
  by (simp_all add: canonical_url_def)

lemma canonical_nonempty: "canonical_url \<noteq> []"
  by (simp add: canonical_url_def)

lemma correctApiUrl_idempotent:
  "correctApiUrl (Some (correctApiUrl url d)) d' = correctApiUrl url d"
  by (auto simp add: correctApiUrl_def Let_def str_or_def canonical_not_deprecated
      canonical_nonempty split: option.splits)

lemma correctedApiUrl_canonical:
  "correctedApiUrl (Map.empty(''GOOGLE_API_URL'' \<mapsto> canonical_url)) = canonical_url"
  by (simp add: correctedApiUrl_def getEnvVar_def truthy_def str_or_def canonical_not_deprecated
      canonical_nonempty Let_def)

lemma save_config_correct_canonical:
  "save_config_correct [(''GOOGLE_API_URL'', canonical_url)] = [(''GOOGLE_API_URL'', canonical_url)]"
  by (simp add: save_config_correct_def obj_get_def truthy_def ui_url_deprecated_def
      canonical_not_deprecated canonical_nonempty Let_def)

text \<open>
  C6 at the stored endpoint \<open>https://api.google.com/v1/models/imagen:generate\<close>, which
  carries the deprecated marker \<open>api.google.com\<close>: the corrections of the load path rewrite
  it to the canonical endpoint, the correction of the save path keeps it as it is.
\<close>

theorem save_path_keeps_deprecated_endpoint:
  "str_includes ''https://api.google.com/v1/models/imagen:generate'' ''api.google.com''
   \<and> correctApiUrl (Some ''https://api.google.com/v1/models/imagen:generate'') canonical_url
       = canonical_url
   \<and> correctedApiUrl
         (Map.empty(''GOOGLE_API_URL'' \<mapsto> ''https://api.google.com/v1/models/imagen:generate''))
       = canonical_url
   \<and> save_config_correct [(''GOOGLE_API_URL'', ''https://api.google.com/v1/models/imagen:generate'')]
       = [(''GOOGLE_API_URL'', ''https://api.google.com/v1/models/imagen:generate'')]
   \<and> ''https://api.google.com/v1/models/imagen:generate'' \<noteq> canonical_url"
proof -
  let ?u = "''https://api.google.com/v1/models/imagen:generate''"
  have inc: "str_includes ?u ''api.google.com''" by simp
  have ui: "\<not> ui_url_deprecated ?u" by (simp add: ui_url_deprecated_def)
  have a: "correctApiUrl (Some ?u) canonical_url = canonical_url"
    using inc by (simp add: correctApiUrl_def str_or_def Let_def)
  have b: "correctedApiUrl (Map.empty(''GOOGLE_API_URL'' \<mapsto> ?u)) = canonical_url"
    using inc by (simp add: correctedApiUrl_def getEnvVar_def truthy_def Let_def)
  have c: "save_config_correct [(''GOOGLE_API_URL'', ?u)] = [(''GOOGLE_API_URL'', ?u)]"
    using ui by (simp add: save_config_correct_def obj_get_def truthy_def Let_def)
  have d: "?u \<noteq> canonical_url" by (simp add: canonical_url_def)
  show ?thesis using inc a b c d by blast
qed

lemma escapedValue_canonical: "escapedValue canonical_url = canonical_url"
  by (simp add: escapedValue_def canonical_url_def)

lemma escapedValue_say_hi:
  "escapedValue (''say '' @ [CHR 0x22] @ ''hi'' @ [CHR 0x22])
     = [CHR 0x22] @ ''say '' @ [CHR 0x5C, CHR 0x22] @ ''hi'' @ [CHR 0x5C, CHR 0x22] @ [CHR 0x22]"
  by (simp add: escapedValue_def escape_quotes_def)

lemma save_then_load_plain_example:
  "obj_get (loadFreshConfig_parse
              (save_config_content [(''IMAGE_PROMPT'', ''sunset over city #1 = calm'')]))
       ''IMAGE_PROMPT''
     = Some ''sunset over city #1 = calm''"
proof -
  have e: "escapedValue ''sunset over city #1 = calm''
      = [CHR 0x22] @ ''sunset over city #1 = calm'' @ [CHR 0x22]"
    by (simp add: escapedValue_def escape_quotes_def)
  have c: "save_config_content [(''IMAGE_PROMPT'', ''sunset over city #1 = calm'')]
      = ''IMAGE_PROMPT='' @ [CHR 0x22] @ ''sunset over city #1 = calm'' @ [CHR 0x22]
        @ [CHR 0x0A] @ ''GOOGLE_API_URL='' @ canonical_url"
    using e
    by (simp add: save_config_content_def save_config_correct_def obj_get_def truthy_def
        escapedValue_canonical Let_def)
  show ?thesis
    unfolding c
    by (simp add: canonical_url_def loadFreshConfig_parse_def match_line_def trim_def is_ws_def
        unquote_def endsWith_def is_line_terminator_def obj_get_def Let_def)
qed

text \<open>
  C7 at the value \<open>say "hi"\<close>, which contains a space and double quotes.  It is written
  as \<open>IMAGE_PROMPT="say \"hi\""\<close>; reading removes the surrounding quotes and keeps the
  backslashes, so the value read is \<open>say \"hi\"\<close>, not the value saved.
\<close>

theorem save_then_load_changes_quoted_value:
  "save_config_content [(''IMAGE_PROMPT'', ''say '' @ [CHR 0x22] @ ''hi'' @ [CHR 0x22])]
     = ''IMAGE_PROMPT='' @ [CHR 0x22] @ ''say '' @ [CHR 0x5C, CHR 0x22] @ ''hi'' @ [CHR 0x5C, CHR 0x22]
       @ [CHR 0x22] @ [CHR 0x0A] @ ''GOOGLE_API_URL='' @ canonical_url
   \<and> obj_get (loadFreshConfig_parse
                (save_config_content [(''IMAGE_PROMPT'', ''say '' @ [CHR 0x22] @ ''hi'' @ [CHR 0x22])]))
         ''IMAGE_PROMPT''
     = Some (''say '' @ [CHR 0x5C, CHR 0x22] @ ''hi'' @ [CHR 0x5C, CHR 0x22])
   \<and> ''say '' @ [CHR 0x5C, CHR 0x22] @ ''hi'' @ [CHR 0x5C, CHR 0x22]
     \<noteq> ''say '' @ [CHR 0x22] @ ''hi'' @ [CHR 0x22]"
proof -
  let ?v = "''say '' @ [CHR 0x22] @ ''hi'' @ [CHR 0x22]"
  have c: "save_config_content [(''IMAGE_PROMPT'', ?v)]
     = ''IMAGE_PROMPT='' @ [CHR 0x22] @ ''say '' @ [CHR 0x5C, CHR 0x22] @ ''hi'' @ [CHR 0x5C, CHR 0x22]
       @ [CHR 0x22] @ [CHR 0x0A] @ ''GOOGLE_API_URL='' @ canonical_url"
    using escapedValue_say_hi
    by (simp add: save_config_content_def save_config_correct_def obj_get_def truthy_def
        escapedValue_canonical Let_def)
  have l: "obj_get (loadFreshConfig_parse
       (''IMAGE_PROMPT='' @ [CHR 0x22] @ ''say '' @ [CHR 0x5C, CHR 0x22] @ ''hi'' @ [CHR 0x5C, CHR 0x22]
       @ [CHR 0x22] @ [CHR 0x0A] @ ''GOOGLE_API_URL='' @ canonical_url)) ''IMAGE_PROMPT''
     = Some (''say '' @ [CHR 0x5C, CHR 0x22] @ ''hi'' @ [CHR 0x5C, CHR 0x22])"
    by (simp add: canonical_url_def loadFreshConfig_parse_def match_line_def trim_def is_ws_def
        unquote_def endsWith_def is_line_terminator_def obj_get_def Let_def)
  show ?thesis unfolding c l by simp
qed


section \<open>Properties of the scheduler\<close>

lemma js_add_int:
  "\<bar>a + b\<bar> < 2 ^ 53 \<Longrightarrow> js_add (Fin (of_int a)) (Fin (of_int b)) = Fin (of_int (a + b))"
  using round_double_int [of "a + b"] by simp

lemma js_sub_int:
  "\<bar>a - b\<bar> < 2 ^ 53 \<Longrightarrow> js_sub (Fin (of_int a)) (Fin (of_int b)) = Fin (of_int (a - b))"
  using round_double_int [of "a - b"] by (simp add: js_sub_def js_neg_def)

lemma js_mul_int:
  "\<bar>a * b\<bar> < 2 ^ 53 \<Longrightarrow> js_mul (Fin (of_int a)) (Fin (of_int b)) = Fin (of_int (a * b))"
  using round_double_int [of "a * b"] by simp

lemma ToIntegerOrInfinity_int: "ToIntegerOrInfinity (Fin (of_int a)) = Fin (of_int a)"
  by (simp add: ToIntegerOrInfinity_def)

lemma Day_int: "Day (Fin (of_int a)) = Fin (of_int (a div 86400000))"
proof -
  have "\<lfloor>(of_int a :: rat) / 86400000\<rfloor> = a div 86400000"
    using floor_divide_of_int_eq [of a 86400000, where ?'a = rat] by simp
  then show ?thesis by (simp add: Day_def)
qed

lemma TimeWithinDay_int: "TimeWithinDay (Fin (of_int a)) = Fin (of_int (a mod 86400000))"
proof -
  have "\<lfloor>(of_int a :: rat) / 86400000\<rfloor> = a div 86400000"
    using floor_divide_of_int_eq [of a 86400000, where ?'a = rat] by simp
  moreover have "a - 86400000 * (a div 86400000) = a mod 86400000"
    by (simp add: minus_mult_div_eq_mod)
  ultimately have "(of_int a :: rat) - 86400000 * of_int \<lfloor>(of_int a :: rat) / 86400000\<rfloor>
      = of_int (a mod 86400000)"
    by (metis of_int_diff of_int_mult of_int_numeral)
  then show ?thesis by (simp add: TimeWithinDay_def)
qed

lemma MakeTime_int:
  assumes "0 \<le> h" "h < 24" "0 \<le> m" "m < 60"
  shows "MakeTime (Fin (of_int h)) (Fin (of_int m)) (Fin 0) (Fin 0)
       = Fin (of_int (h * 3600000 + m * 60000))"
proof -
  have hm: "\<bar>h * 3600000\<bar> < 2 ^ 53" "\<bar>m * 60000\<bar> < 2 ^ 53"
    "\<bar>h * 3600000 + m * 60000\<bar> < 2 ^ 53"
    "\<bar>h * 3600000 + m * 60000 + 0\<bar> < 2 ^ 53"
    using assms by auto
  have z: "(Fin 0) = Fin (of_int 0)" "Fin 3600000 = Fin (of_int 3600000)"
    "Fin 60000 = Fin (of_int 60000)" "Fin 1000 = Fin (of_int 1000)"
    by simp_all
  have s0: "js_mul (Fin (of_int 0)) (Fin (of_int 1000)) = Fin (of_int 0)"
    using js_mul_int [of 0 1000] by simp
  show ?thesis
    unfolding MakeTime_def is_finite_def Let_def z ToIntegerOrInfinity_int
    using hm s0 js_mul_int [of h 3600000] js_mul_int [of m 60000]
      js_add_int [of "h * 3600000" "m * 60000"] js_add_int [of "h * 3600000 + m * 60000" 0]
    by simp
qed

lemma MakeDate_int:
  assumes "\<bar>d * 86400000\<bar> < 2 ^ 53" "\<bar>d * 86400000 + t\<bar> < 2 ^ 53"
  shows "MakeDate (Fin (of_int d)) (Fin (of_int t)) = Fin (of_int (d * 86400000 + t))"
proof -
  have z: "Fin 86400000 = Fin (of_int 86400000)" by simp
  show ?thesis
    unfolding MakeDate_def Let_def z
    using assms js_mul_int [of d 86400000] js_add_int [of "d * 86400000" t]
    by (simp add: is_finite_def)
qed

lemma TimeClip_int:
  "\<bar>a\<bar> \<le> 8640000000000000 \<Longrightarrow> TimeClip (Fin (of_int a)) = Fin (of_int a)"
proof -
  assume a: "\<bar>a\<bar> \<le> 8640000000000000"
  have "\<bar>of_int a :: rat\<bar> = of_int \<bar>a\<bar>" by simp
  also have "\<dots> \<le> of_int 8640000000000000" using a by (subst of_int_le_iff)
  finally have "\<not> 8640000000000000 < \<bar>of_int a :: rat\<bar>" by simp
  then show ?thesis by (simp add: TimeClip_def ToIntegerOrInfinity_int)
qed

lemma LocalTime_fixed_zone:
  "\<bar>t + off\<bar> < 2 ^ 53 \<Longrightarrow>
   LocalTime (fixed_zone off) (Fin (of_int t)) = Fin (of_int (t + off))"
  by (simp add: LocalTime_def fixed_zone_def js_add_int del: js_add.simps)

lemma UTC_fixed_zone:
  "\<bar>t - off\<bar> < 2 ^ 53 \<Longrightarrow> UTC (fixed_zone off) (Fin (of_int t)) = Fin (of_int (t - off))"
  by (simp add: UTC_def fixed_zone_def js_sub_int)

lemma setHours_fixed_zone:
  assumes hm: "0 \<le> h" "h < 24" "0 \<le> m" "m < 60"
    and off: "\<bar>off\<bar> \<le> 86400000" and t: "\<bar>t\<bar> \<le> 8600000000000000"
  shows "setHours (fixed_zone off) (Fin (of_int t)) (Fin (of_int h)) (Fin (of_int m)) (Fin 0) (Fin 0)
       = Fin (of_int (((t + off) div 86400000) * 86400000 + (h * 3600000 + m * 60000) - off))"
proof -
  define d where "d = (t + off) div 86400000"
  define tm where "tm = h * 3600000 + m * 60000"
  have tm: "0 \<le> tm" "tm < 86400000" using hm by (auto simp: tm_def)
  define w where "w = (t + off) mod 86400000"
  have w: "0 \<le> w" "w < 86400000" by (simp_all add: w_def)
  have dw: "d * 86400000 + w = t + off" by (simp add: d_def w_def)
  have d: "d * 86400000 \<le> t + off" "t + off < d * 86400000 + 86400000"
    using w dw by linarith+
  have p53: "(2::int) ^ 53 = 9007199254740992" by simp
  have b1: "\<bar>t + off\<bar> < 2 ^ 53" using off t unfolding p53 by linarith
  have b2: "\<bar>d * 86400000\<bar> < 2 ^ 53" using off t d unfolding p53 by linarith
  have b3: "\<bar>d * 86400000 + tm\<bar> < 2 ^ 53" using off t d tm unfolding p53 by linarith
  have b4: "\<bar>d * 86400000 + tm - off\<bar> < 2 ^ 53" using off t d tm unfolding p53 by linarith
  have b5: "\<bar>d * 86400000 + tm - off\<bar> \<le> 8640000000000000" using off t d tm by linarith
  have 1: "LocalTime (fixed_zone off) (Fin (of_int t)) = Fin (of_int (t + off))"
    by (rule LocalTime_fixed_zone [OF b1])
  have 2: "Day (Fin (of_int (t + off))) = Fin (of_int d)"
    by (simp only: Day_int d_def)
  have 3: "MakeTime (Fin (of_int h)) (Fin (of_int m)) (Fin 0) (Fin 0) = Fin (of_int tm)"
    by (simp only: MakeTime_int [OF hm] tm_def)
  have 4: "MakeDate (Fin (of_int d)) (Fin (of_int tm)) = Fin (of_int (d * 86400000 + tm))"
    by (rule MakeDate_int [OF b2 b3])
  have 5: "UTC (fixed_zone off) (Fin (of_int (d * 86400000 + tm)))
      = Fin (of_int (d * 86400000 + tm - off))"
    by (rule UTC_fixed_zone [OF b4])
  have 6: "TimeClip (Fin (of_int (d * 86400000 + tm - off))) = Fin (of_int (d * 86400000 + tm - off))"
    by (rule TimeClip_int [OF b5])
  have "setHours (fixed_zone off) (Fin (of_int t)) (Fin (of_int h)) (Fin (of_int m)) (Fin 0) (Fin 0)
      = Fin (of_int (d * 86400000 + tm - off))"
    unfolding setHours_def Let_def by (simp only: 1 2 3 4 5 6 jsnum.simps if_False)
  then show ?thesis by (simp only: d_def tm_def)
qed

lemma setDate_next_fixed_zone:
  assumes off: "\<bar>off\<bar> \<le> 86400000" and t: "\<bar>t\<bar> \<le> 8610000000000000"
  shows "setDate_next (fixed_zone off) (Fin (of_int t)) = Fin (of_int (t + 86400000))"
proof -
  define d where "d = (t + off) div 86400000"
  define w where "w = (t + off) mod 86400000"
  have w: "0 \<le> w" "w < 86400000" by (simp_all add: w_def)
  have dw: "d * 86400000 + w = t + off" by (simp add: d_def w_def)
  have p53: "(2::int) ^ 53 = 9007199254740992" by simp
  have b1: "\<bar>t + off\<bar> < 2 ^ 53" using off t unfolding p53 by linarith
  have ex: "(d + 1) * 86400000 = d * 86400000 + 86400000" by (simp add: algebra_simps)
  have b0: "\<bar>d + 1\<bar> < 2 ^ 53" using off t dw w unfolding p53 by linarith
  have b2: "\<bar>(d + 1) * 86400000\<bar> < 2 ^ 53" using off t dw w unfolding p53 ex by linarith
  have b3: "\<bar>(d + 1) * 86400000 + w\<bar> < 2 ^ 53" using off t dw w unfolding p53 ex by linarith
  have e: "(d + 1) * 86400000 + w - off = t + 86400000" using dw unfolding ex by linarith
  have b4: "\<bar>(d + 1) * 86400000 + w - off\<bar> < 2 ^ 53" unfolding e using t unfolding p53 by linarith
  have b5: "\<bar>(d + 1) * 86400000 + w - off\<bar> \<le> 8640000000000000" unfolding e using t by linarith
  have one: "Fin 1 = Fin (of_int 1)" by simp
  have 1: "LocalTime (fixed_zone off) (Fin (of_int t)) = Fin (of_int (t + off))"
    by (rule LocalTime_fixed_zone [OF b1])
  have 2: "Day (Fin (of_int (t + off))) = Fin (of_int d)"
    by (simp only: Day_int d_def)
  have 3: "TimeWithinDay (Fin (of_int (t + off))) = Fin (of_int w)"
    by (simp only: TimeWithinDay_int w_def)
  have 4: "js_add (Fin (of_int d)) (Fin 1) = Fin (of_int (d + 1))"
    unfolding one by (rule js_add_int [OF b0])
  have 5: "MakeDate (Fin (of_int (d + 1))) (Fin (of_int w)) = Fin (of_int ((d + 1) * 86400000 + w))"
    by (rule MakeDate_int [OF b2 b3])
  have 6: "UTC (fixed_zone off) (Fin (of_int ((d + 1) * 86400000 + w)))
      = Fin (of_int (t + 86400000))"
    using UTC_fixed_zone [OF b4] unfolding e .
  have 7: "TimeClip (Fin (of_int (t + 86400000))) = Fin (of_int (t + 86400000))"
    using TimeClip_int [OF b5] unfolding e .
  show ?thesis
    unfolding setDate_next_def Let_def by (simp only: 1 2 3 4 5 6 7 jsnum.simps if_False)
qed

lemma js_le_int: "js_le (Fin (of_int a)) (Fin (of_int b)) = (a \<le> b)"
  by (auto simp: js_le_def)

lemma scheduledTime_fixed_zone:
  assumes sp: "schedule_parts cfg = (Fin (of_int h), Fin (of_int m))"
    and hm: "0 \<le> h" "h < 24" "0 \<le> m" "m < 60"
    and off: "\<bar>off\<bar> \<le> 86400000"
    and now: "\<bar>now\<bar> \<le> 8600000000000000" "\<bar>now'\<bar> \<le> 8600000000000000"
  shows "scheduledTime cfg (fixed_zone off) now now'
       = Fin (of_int
           (if ((now' + off) div 86400000) * 86400000 + (h * 3600000 + m * 60000) - off \<le> now
            then ((now' + off) div 86400000) * 86400000 + (h * 3600000 + m * 60000) - off + 86400000
            else ((now' + off) div 86400000) * 86400000 + (h * 3600000 + m * 60000) - off))"
proof -
  define T0 where "T0 = ((now' + off) div 86400000) * 86400000 + (h * 3600000 + m * 60000) - off"
  define w where "w = (now' + off) mod 86400000"
  have w: "0 \<le> w" "w < 86400000" by (simp_all add: w_def)
  have dw: "((now' + off) div 86400000) * 86400000 + w = now' + off" by (simp add: w_def)
  have T0b: "\<bar>T0\<bar> \<le> 8610000000000000"
    using hm off now w dw unfolding T0_def by linarith
  have 1: "setHours (fixed_zone off) (Fin (of_int now')) (Fin (of_int h)) (Fin (of_int m)) (Fin 0) (Fin 0)
      = Fin (of_int T0)"
    unfolding T0_def by (rule setHours_fixed_zone [OF hm off now(2)])
  have 2: "setDate_next (fixed_zone off) (Fin (of_int T0)) = Fin (of_int (T0 + 86400000))"
    by (rule setDate_next_fixed_zone [OF off T0b])
  have "scheduledTime cfg (fixed_zone off) now now'
      = Fin (of_int (if T0 \<le> now then T0 + 86400000 else T0))"
    unfolding scheduledTime_def sp Let_def
    by (cases "T0 \<le> now") (simp_all only: prod.case 1 2 js_le_int if_True if_False)
  then show ?thesis unfolding T0_def .
qed

lemma msUntilNext_fixed_zone:
  assumes sp: "schedule_parts cfg = (Fin (of_int h), Fin (of_int m))"
    and hm: "0 \<le> h" "h < 24" "0 \<le> m" "m < 60"
    and off: "\<bar>off\<bar> \<le> 86400000"
    and now: "\<bar>now\<bar> \<le> 8600000000000000"
  shows "msUntilNext cfg (fixed_zone off) now now
       = Fin (of_int
           ((if ((now + off) div 86400000) * 86400000 + (h * 3600000 + m * 60000) - off \<le> now
             then ((now + off) div 86400000) * 86400000 + (h * 3600000 + m * 60000) - off + 86400000
             else ((now + off) div 86400000) * 86400000 + (h * 3600000 + m * 60000) - off) - now))"
proof -
  define T0 where "T0 = ((now + off) div 86400000) * 86400000 + (h * 3600000 + m * 60000) - off"
  define T where "T = (if T0 \<le> now then T0 + 86400000 else T0)"
  define w where "w = (now + off) mod 86400000"
  have w: "0 \<le> w" "w < 86400000" by (simp_all add: w_def)
  have dw: "((now + off) div 86400000) * 86400000 + w = now + off" by (simp add: w_def)
  have "\<bar>T0 - now\<bar> \<le> 86400000" using hm w dw unfolding T0_def by linarith
  then have "\<bar>T - now\<bar> \<le> 172800000" unfolding T_def by auto
  then have b: "\<bar>T - now\<bar> < 2 ^ 53" by simp
  have st: "scheduledTime cfg (fixed_zone off) now now = Fin (of_int T)"
    unfolding T_def T0_def by (rule scheduledTime_fixed_zone [OF sp hm off now now])
  have "msUntilNext cfg (fixed_zone off) now now = Fin (of_int (T - now))"
    unfolding msUntilNext_def st by (rule js_sub_int [OF b])
  then show ?thesis unfolding T_def T0_def .
qed

lemma next_target_fixed_zone:
  "next_target (fixed_zone off) h m now
     = of_int
         (if ((now + off) div 86400000) * 86400000 + (h * 3600000 + m * 60000) - off \<le> now
          then ((now + off) div 86400000) * 86400000 + (h * 3600000 + m * 60000) - off + 86400000
          else ((now + off) div 86400000) * 86400000 + (h * 3600000 + m * 60000) - off)"
proof -
  have d: "local_day (fixed_zone off) now = (now + off) div 86400000"
    using floor_divide_of_int_eq [of "now + off" 86400000, where ?'a = rat]
    by (simp add: local_day_def fixed_zone_def)
  have wc: "wall_clock (fixed_zone off) day h m
      = of_int (day * 86400000 + (h * 3600000 + m * 60000) - off)" for day
    by (simp add: wall_clock_def fixed_zone_def)
  have le: "((of_int a :: rat) \<le> of_int b) = (a \<le> b)" for a b by simp
  show ?thesis
    unfolding next_target_def Let_def d wc le
    by (simp add: algebra_simps)
qed

lemma msUntilNext_is_next_target:
  assumes sp: "schedule_parts cfg = (Fin (of_int h), Fin (of_int m))"
    and hm: "0 \<le> h" "h < 24" "0 \<le> m" "m < 60"
    and off: "\<bar>off\<bar> \<le> 86400000"
    and now: "\<bar>now\<bar> \<le> 8600000000000000"
  shows "msUntilNext cfg (fixed_zone off) now now
       = Fin (next_target (fixed_zone off) h m now - of_int now)"
  unfolding msUntilNext_fixed_zone [OF assms] next_target_fixed_zone by simp

lemma Number_09: "Number ''09'' = Fin 9"
  by (subst Number_digits) (simp_all add: is_digit_def digits_val_def hex_val_def)

lemma Number_00: "Number ''00'' = Fin 0"
  by (subst Number_digits) (simp_all add: is_digit_def digits_val_def hex_val_def)

lemma schedule_parts_0900:
  "time (schedule cfg) = ''09:00'' \<Longrightarrow> schedule_parts cfg = (Fin (of_int 9), Fin (of_int 0))"
  by (simp add: schedule_parts_def Number_09 Number_00)

lemma msUntilNext_0900_utc_examples:
  assumes "time (schedule cfg) = ''09:00''"
  shows "msUntilNext cfg (fixed_zone 0) 1705305600000 1705305600000 = Fin 3600000"
    and "msUntilNext cfg (fixed_zone 0) 1705359600000 1705359600000 = Fin 36000000"
    and "msUntilNext cfg (fixed_zone 0) 1705320000000 1705320000000 = Fin 75600000"
  by (simp_all add: msUntilNext_fixed_zone [OF schedule_parts_0900 [OF assms]])

lemma stop_idempotent: "stop (stop s) = stop s"
  by (cases "intervalId s") (simp_all add: stop_def)

lemma stop_when_stopped: "intervalId s = None \<Longrightarrow> stop s = s"
  by (simp add: stop_def)

lemma stop_clears_interval:
  "intervalId s = Some i \<Longrightarrow> intervalId (stop s) = None \<and> i \<notin> handle ` set (timers (stop s))"
  by (auto simp: stop_def clearInterval_def)

lemma default_config_schedule:
  "time (schedule (config ''images'' (Map.empty(''GOOGLE_API_KEY'' \<mapsto> ''key'')))) = ''09:00''"
  "timezone (schedule (config ''images'' (Map.empty(''GOOGLE_API_KEY'' \<mapsto> ''key''))))
     = ''America/New_York''"
  "apiKey (google (config ''images'' (Map.empty(''GOOGLE_API_KEY'' \<mapsto> ''key'')))) = Some ''key''"
proof -
  let ?C = "config ''images'' (Map.empty(''GOOGLE_API_KEY'' \<mapsto> ''key''))"
  show "time (schedule ?C) = ''09:00''" "timezone (schedule ?C) = ''America/New_York''"
    by (simp_all add: config_def str_or_getEnvVar default_or_value_def)
  show "apiKey (google ?C) = Some ''key''"
    by (simp add: config_def getEnvVar_def truthy_def)
qed

lemma msUntilNext_ignores_timezone:
  "msUntilNext (cfg\<lparr>schedule := (schedule cfg)\<lparr>timezone := tz\<rparr>\<rparr>) z now now'
     = msUntilNext cfg z now now'"
  by (simp add: msUntilNext_def scheduledTime_def schedule_parts_def)

lemma scheduledTime_0900_utc_examples:
  assumes "time (schedule cfg) = ''09:00''"
  shows "scheduledTime cfg (fixed_zone 0) 1705305600000 1705305600000 = Fin 1705309200000"
    and "scheduledTime cfg (fixed_zone 0) 1705359600000 1705359600000 = Fin 1705395600000"
  by (simp_all add: scheduledTime_fixed_zone [OF schedule_parts_0900 [OF assms]])

text \<open>
  C1 on a scheduler started at 08:00 with the schedule time 09:00 (host in UTC, 15 January
  2024).  \<open>stop\<close> changes nothing, also when called twice: the one-shot timer of one hour
  stays armed, and when it fires after the stop the job runs and the daily interval is
  armed.
\<close>

theorem stop_leaves_one_shot_timer_armed:
  "new_Scheduler (config ''images'' (Map.empty(''GOOGLE_API_KEY'' \<mapsto> ''key'')))
     = Inr \<lparr>intervalId = None, timers = [], next_handle = 0, runs_started = 0\<rparr>
   \<and> startDailySchedule (config ''images'' (Map.empty(''GOOGLE_API_KEY'' \<mapsto> ''key'')))
         (fixed_zone 0) 1705305600000 1705305600000
         \<lparr>intervalId = None, timers = [], next_handle = 0, runs_started = 0\<rparr>
     = Inr \<lparr>intervalId = None,
            timers = [\<lparr>handle = 0, repeating = False, delay = Fin 3600000, action = FirstRun\<rparr>],
            next_handle = 1, runs_started = 0\<rparr>
   \<and> timers (stop (stop \<lparr>intervalId = None,
            timers = [\<lparr>handle = 0, repeating = False, delay = Fin 3600000, action = FirstRun\<rparr>],
            next_handle = 1, runs_started = 0\<rparr>))
     = [\<lparr>handle = 0, repeating = False, delay = Fin 3600000, action = FirstRun\<rparr>]
   \<and> fire 0 (stop \<lparr>intervalId = None,
            timers = [\<lparr>handle = 0, repeating = False, delay = Fin 3600000, action = FirstRun\<rparr>],
            next_handle = 1, runs_started = 0\<rparr>)
     = \<lparr>intervalId = Some 1,
        timers = [\<lparr>handle = 1, repeating = True, delay = Fin 86400000, action = DailyRun\<rparr>],
        next_handle = 2, runs_started = 1\<rparr>"
proof -
  let ?C = "config ''images'' (Map.empty(''GOOGLE_API_KEY'' \<mapsto> ''key''))"
  have a: "new_Scheduler ?C = Inr \<lparr>intervalId = None, timers = [], next_handle = 0, runs_started = 0\<rparr>"
    by (simp add: new_Scheduler_def default_config_schedule truthy_def)
  have b: "startDailySchedule ?C (fixed_zone 0) 1705305600000 1705305600000
         \<lparr>intervalId = None, timers = [], next_handle = 0, runs_started = 0\<rparr>
     = Inr \<lparr>intervalId = None,
            timers = [\<lparr>handle = 0, repeating = False, delay = Fin 3600000, action = FirstRun\<rparr>],
            next_handle = 1, runs_started = 0\<rparr>"
    by (simp add: startDailySchedule_def
        msUntilNext_0900_utc_examples [OF default_config_schedule(1)]
        scheduledTime_0900_utc_examples [OF default_config_schedule(1)]
        is_finite_def js_gt_def arm_def)
  have c: "timers (stop (stop \<lparr>intervalId = None,
            timers = [\<lparr>handle = 0, repeating = False, delay = Fin 3600000, action = FirstRun\<rparr>],
            next_handle = 1, runs_started = 0\<rparr>))
     = [\<lparr>handle = 0, repeating = False, delay = Fin 3600000, action = FirstRun\<rparr>]"
    by (simp add: stop_def)
  have d: "fire 0 (stop \<lparr>intervalId = None,
            timers = [\<lparr>handle = 0, repeating = False, delay = Fin 3600000, action = FirstRun\<rparr>],
            next_handle = 1, runs_started = 0\<rparr>)
     = \<lparr>intervalId = Some 1,
        timers = [\<lparr>handle = 1, repeating = True, delay = Fin 86400000, action = DailyRun\<rparr>],
        next_handle = 2, runs_started = 1\<rparr>"
    by (simp add: stop_def fire_def clearInterval_def runOnce_def arm_def)
  show ?thesis using a b c d by blast
qed

text \<open>
  C4 on a host in UTC at 12:00 UTC on 15 January 2024, with the schedule time 09:00 and the
  configured time zone America/New_York, where it is then 07:00 (UTC-5).  Today at 09:00 in
  the configured zone is two hours away; the scheduler arms 21 hours, the distance to 09:00
  of the next day on the host's clock, and arms the same with any other configured zone.
\<close>

theorem scheduler_ignores_configured_timezone:
  "timezone (schedule (config ''images'' (Map.empty(''GOOGLE_API_KEY'' \<mapsto> ''key''))))
     = ''America/New_York''
   \<and> next_target (fixed_zone (- 18000000)) 9 0 1705320000000 - 1705320000000 = 7200000
   \<and> msUntilNext (config ''images'' (Map.empty(''GOOGLE_API_KEY'' \<mapsto> ''key'')))
         (fixed_zone 0) 1705320000000 1705320000000
     = Fin 75600000
   \<and> msUntilNext (config ''images''
                    (Map.empty(''GOOGLE_API_KEY'' \<mapsto> ''key'', ''TIMEZONE'' \<mapsto> ''Asia/Tokyo'')))
         (fixed_zone 0) 1705320000000 1705320000000
     = Fin 75600000"
proof -
  have t: "time (schedule (config ''images''
                    (Map.empty(''GOOGLE_API_KEY'' \<mapsto> ''key'', ''TIMEZONE'' \<mapsto> ''Asia/Tokyo''))))
      = ''09:00''"
    by (simp add: config_def str_or_getEnvVar default_or_value_def)
  have n: "next_target (fixed_zone (- 18000000)) 9 0 1705320000000 - 1705320000000 = 7200000"
    by (simp add: next_target_fixed_zone)
  show ?thesis
    using n
    by (simp add: default_config_schedule msUntilNext_0900_utc_examples [OF default_config_schedule(1)]
        msUntilNext_0900_utc_examples [OF t])
qed

text \<open>
  C5.  When the scheduler starts, it runs the job at once exactly when the computed delay
  is more than 3600000 ms; with a delay of at most one hour it does not.  In both cases the
  one-shot timer for the computed delay is armed, whatever happens to the run.
\<close>

theorem catch_up_run_iff_delay_exceeds_one_hour:
  assumes "startDailySchedule cfg z now now' s = Inr s'"
  shows "timers s'
       = timers s @ [\<lparr>handle = next_handle s, repeating = False,
                      delay = msUntilNext cfg z now now', action = FirstRun\<rparr>]
     \<and> runs_started s'
       = (if js_gt (msUntilNext cfg z now now') (Fin 3600000) then Suc (runs_started s)
          else runs_started s)
     \<and> intervalId s' = intervalId s"
proof -
  let ?d = "msUntilNext cfg z now now'"
  from assms have "is_finite (scheduledTime cfg z now now')"
    by (simp add: startDailySchedule_def Let_def split: if_splits)
  with assms have s': "s' = snd (arm False FirstRun ?d (if js_gt ?d (Fin 3600000) then runOnce s else s))"
    by (simp add: startDailySchedule_def Let_def)
  show ?thesis unfolding s' by (simp add: arm_def runOnce_def)
qed

theorem catch_up_run_iff_delay_exceeds_one_hour_witness:
  "startDailySchedule (config ''images'' (Map.empty(''GOOGLE_API_KEY'' \<mapsto> ''key'')))
     (fixed_zone 0) 1705359600000 1705359600000
     \<lparr>intervalId = None, timers = [], next_handle = 0, runs_started = 0\<rparr>
     = Inr \<lparr>intervalId = None,
            timers = [\<lparr>handle = 0, repeating = False, delay = Fin 36000000, action = FirstRun\<rparr>],
            next_handle = 1, runs_started = 1\<rparr>
   \<and> js_gt (Fin 36000000) (Fin 3600000)
   \<and> runs_started \<lparr>intervalId = None,
            timers = [\<lparr>handle = 0, repeating = False, delay = Fin 36000000, action = FirstRun\<rparr>],
            next_handle = 1, runs_started = 1\<rparr>
     = Suc (runs_started \<lparr>intervalId = None, timers = [], next_handle = 0, runs_started = 0\<rparr>)"
proof -
  let ?C = "config ''images'' (Map.empty(''GOOGLE_API_KEY'' \<mapsto> ''key''))"
  let ?s0 = "\<lparr>intervalId = None, timers = [], next_handle = 0, runs_started = 0\<rparr>"
  let ?s1 = "\<lparr>intervalId = None,
            timers = [\<lparr>handle = 0, repeating = False, delay = Fin 36000000, action = FirstRun\<rparr>],
            next_handle = 1, runs_started = 1\<rparr>"
  have d: "msUntilNext ?C (fixed_zone 0) 1705359600000 1705359600000 = Fin 36000000"
    by (rule msUntilNext_0900_utc_examples [OF default_config_schedule(1)])
  have h: "startDailySchedule ?C (fixed_zone 0) 1705359600000 1705359600000 ?s0 = Inr ?s1"
    by (simp add: startDailySchedule_def d
        scheduledTime_0900_utc_examples [OF default_config_schedule(1)]
        is_finite_def js_gt_def arm_def runOnce_def)
  have g: "js_gt (Fin 36000000) (Fin 3600000)"
    by (simp add: js_gt_def)
  have "runs_started ?s1
      = (if js_gt (Fin 36000000) (Fin 3600000) then Suc (runs_started ?s0) else runs_started ?s0)"
    by (rule catch_up_run_iff_delay_exceeds_one_hour [OF h, unfolded d, THEN conjunct2, THEN conjunct1])
  then have r: "runs_started ?s1 = Suc (runs_started ?s0)"
    using g by (simp only: if_True)
  show ?thesis using h g r by blast
qed

end
